theory Spec2Isabelle
  imports Main "HOL-Library.AList"
begin

section \<open>JavaScript values and strings\<close>

text \<open>
  The values that flow through \<^verbatim>\<open>src/core/request.js\<close>: payloads, header values, the
  entries of \<^verbatim>\<open>flags\<close> and of a serialized query. A plain object is the list of its own
  enumerable properties in insertion order; its keys are distinct. (JavaScript lists the keys
  that are array indices before the others; here they stand where they were inserted, and
  nothing below depends on the order of keys.)
\<close>

datatype jsval =
    JUndefined
  | JNull
  | JBool bool
  | JNum int
  | JStr string
  | JArr "jsval list"
  | JObj "(string \<times> jsval) list"

type_synonym jsobject = "(string \<times> jsval) list"

text \<open>
  A character is read as the code unit of its number, so a string is a JavaScript string of
  code units below 256.

  \<^verbatim>\<open>String.prototype.toUpperCase\<close> is used by the method setter alone, which compares the
  result with six names of ASCII letters. It is given on the ASCII letters; a string with
  any other character is refused by the setter under this reading as under JavaScript's, where
  such a character maps to itself, to a character that is not an ASCII letter, or (the sharp
  s) to \<^verbatim>\<open>SS\<close>, which none of the six names contains.
\<close>

definition toUpperCase_char :: "char \<Rightarrow> char" where
  "toUpperCase_char c =
     (case map_of (zip ''abcdefghijklmnopqrstuvwxyz'' ''ABCDEFGHIJKLMNOPQRSTUVWXYZ'') c of
        Some u \<Rightarrow> u
      | None \<Rightarrow> c)"

text \<open>
  \<^verbatim>\<open>String.prototype.toLowerCase\<close> on code units below 256: the letters A to Z and the
  letters U+00C0 to U+00DE (all of that range but the multiplication sign U+00D7) go to the
  code unit 32 above; every other code unit is its own lower case.
\<close>

definition toLowerCase_char :: "char \<Rightarrow> char" where
  "toLowerCase_char c =
     (let n = (of_char c :: nat)
      in if (65 \<le> n \<and> n \<le> 90) \<or> (192 \<le> n \<and> n \<le> 222 \<and> n \<noteq> 215)
         then char_of (n + 32) else c)"

definition toUpperCase :: "string \<Rightarrow> string" where
  "toUpperCase s = map toUpperCase_char s"

definition toLowerCase :: "string \<Rightarrow> string" where
  "toLowerCase s = map toLowerCase_char s"

text \<open>
  On the own properties of an object: the read \<^verbatim>\<open>obj[key]\<close> of an own key, the write of
  an own property (a new key goes last), \<^verbatim>\<open>delete obj[key]\<close> and \<^verbatim>\<open>Object.keys(obj)\<close>.
\<close>

definition obj_get :: "jsobject \<Rightarrow> string \<Rightarrow> jsval" where
  "obj_get obj key = (case map_of obj key of Some v \<Rightarrow> v | None \<Rightarrow> JUndefined)"

definition obj_set :: "jsobject \<Rightarrow> string \<Rightarrow> jsval \<Rightarrow> jsobject" where
  "obj_set obj key v = AList.update key v obj"


definition Object_keys :: "jsobject \<Rightarrow> string list" where
  "Object_keys obj = map fst obj"

section \<open>Enumerations\<close>

text \<open>
  Modelled from the spec: the modules \<^verbatim>\<open>./enums/httpMethod\<close>, \<^verbatim>\<open>./enums/dataPolicy\<close> are
  imported by \<^verbatim>\<open>request.js\<close> but are not among the sources. The spec gives their members:
  the methods OPTIONS, GET, POST, PATCH, PUT, DELETE (the setter's own error message lists the
  same six) and the policies LocalOnly, CloudOnly, LocalFirst, CloudFirst. Each method
  constant is the string of its name.
\<close>

datatype HttpMethod = OPTIONS | GET | POST | PATCH | PUT | DELETE

fun HttpMethod_value :: "HttpMethod \<Rightarrow> string" where
  "HttpMethod_value OPTIONS = ''OPTIONS''"
| "HttpMethod_value GET = ''GET''"
| "HttpMethod_value POST = ''POST''"
| "HttpMethod_value PATCH = ''PATCH''"
| "HttpMethod_value PUT = ''PUT''"
| "HttpMethod_value DELETE = ''DELETE''"

datatype DataPolicy = LocalOnly | CloudOnly | LocalFirst | CloudFirst

datatype error =
    KinveyError string
  | Error string
  | TypeError string
  | Rejection string

text \<open>The \<^verbatim>\<open>switch\<close> of the \<^verbatim>\<open>method\<close> setter: the member whose value the string is.\<close>

definition HttpMethod_switch :: "string \<Rightarrow> HttpMethod option" where
  "HttpMethod_switch s =
     (if s = HttpMethod_value OPTIONS then Some OPTIONS
      else if s = HttpMethod_value GET then Some GET
      else if s = HttpMethod_value POST then Some POST
      else if s = HttpMethod_value PATCH then Some PATCH
      else if s = HttpMethod_value PUT then Some PUT
      else if s = HttpMethod_value DELETE then Some DELETE
      else None)"

text \<open>
  The body of \<^verbatim>\<open>set method(method)\<close>: what is stored in \<^verbatim>\<open>_method\<close>, or the error thrown.
  The field is written nowhere else, so it always holds one of the six constants; the model
  stores the member, and \<open>HttpMethod_value\<close> is the stored string.
\<close>

definition method_setter :: "jsval \<Rightarrow> error + HttpMethod" where
  "method_setter v =
     (case v of
        JStr s \<Rightarrow>
          (case HttpMethod_switch (toUpperCase s) of
             Some m \<Rightarrow> Inr m
           | None \<Rightarrow> Inl (Error ''Invalid Http Method. OPTIONS, GET, POST, PATCH, PUT, and DELETE are allowed.''))
      | _ \<Rightarrow> Inl (Error ''Invalid Http Method. It must be a string.''))"

section \<open>Collaborators\<close>

text \<open>
  Modelled from the spec: \<^verbatim>\<open>./client\<close>, \<^verbatim>\<open>./query\<close>, \<^verbatim>\<open>./auth\<close>, \<^verbatim>\<open>../rack/rack\<close> and
  \<^verbatim>\<open>../utils/isDefined\<close> are imported by \<^verbatim>\<open>request.js\<close> but are not among the sources.
  The spec gives their interfaces: a client configuration exposes \<^verbatim>\<open>apiProtocol\<close> and
  \<^verbatim>\<open>apiHost\<close>; a query object exposes its serialization \<^verbatim>\<open>toJSON()\<close> to a plain mapping; a
  Response carries \<^verbatim>\<open>data\<close> and the predicate \<^verbatim>\<open>isSuccess()\<close>; a credential set has the
  shape \<^verbatim>\<open>{ scheme, credentials }\<close> or \<^verbatim>\<open>{ scheme, username, password }\<close>; a rack is
  invoked as \<^verbatim>\<open>execute(request) -> Promise<Response>\<close>, and the promise may reject.
\<close>

record Client =
  apiProtocol :: string
  apiHost :: string

datatype Query = Query (toJSON: jsobject)

record Response =
  data :: jsval
  isSuccess :: bool

text \<open>A field of a credential set that is \<open>None\<close> is \<^verbatim>\<open>undefined\<close>.\<close>

record AuthInfo =
  scheme :: string
  credentials :: "string option"
  username :: "string option"
  password :: "string option"

text \<open>What an auth strategy holds or resolves to.\<close>

datatype authValue = AuthUndefined | AuthNull | Credentials AuthInfo

text \<open>
  The \<^verbatim>\<open>auth\<close> property: a value, or a function of the client that returns a promise. The
  type \<open>'w\<close> is the state of the world outside the request (the cache, the network, the
  session): an asynchronous collaborator reads and changes it, and either resolves with a
  value (\<open>Inr\<close>) or rejects with an error (\<open>Inl\<close>).
\<close>

datatype 'w Auth =
    AuthValue authValue
  | AuthFunction "Client \<Rightarrow> 'w \<Rightarrow> (error + authValue) \<times> 'w"

text \<open>\<^verbatim>\<open>isDefined(auth)\<close>: the value is neither \<^verbatim>\<open>undefined\<close> nor \<^verbatim>\<open>null\<close>.\<close>

fun isDefined :: "'w Auth \<Rightarrow> bool" where
  "isDefined (AuthValue AuthUndefined) = False"
| "isDefined (AuthValue AuthNull) = False"
| "isDefined (AuthValue (Credentials a)) = True"
| "isDefined (AuthFunction f) = True"

section \<open>The request descriptor\<close>

text \<open>
  The fields of \<^verbatim>\<open>PrivateRequest\<close>. \<open>http_method\<close> is the field \<^verbatim>\<open>_method\<close> behind the
  accessors \<^verbatim>\<open>method\<close>. \<open>response\<close> is \<open>None\<close> while it is \<^verbatim>\<open>undefined\<close>; \<open>flags\<close> and
  \<open>query\<close> likewise.
\<close>

text \<open>
  The header store is the plain object \<^verbatim>\<open>{}\<close> the constructor makes. Besides its own
  properties it has a prototype, which an assignment to the key \<^verbatim>\<open>__proto__\<close> can reach:
  \<^verbatim>\<open>Object.prototype\<close> at first, later perhaps \<^verbatim>\<open>null\<close> or an object or array that was
  assigned.
\<close>

datatype prototype = ObjectPrototype | NullPrototype | ValuePrototype jsval

record 'w request =
  http_method :: HttpMethod
  headers :: jsobject
  headers_prototype :: prototype
  protocol :: string
  host :: string
  path :: string
  query :: "Query option"
  flags :: "jsobject option"
  body :: jsval
  responseType :: string
  client :: Client
  auth :: "'w Auth"
  dataPolicy :: DataPolicy
  executing :: bool
  response :: "Response option"

text \<open>The argument of \<^verbatim>\<open>url.format\<close>.\<close>

record UrlObject =
  url_protocol :: string
  url_host :: string
  url_pathname :: string
  url_query :: jsobject
  url_hash :: jsval

text \<open>
  What the module reads from outside itself: the two racks \<^verbatim>\<open>Rack.cacheRack\<close> and
  \<^verbatim>\<open>Rack.networkRack\<close>, the defaults \<^verbatim>\<open>Client.sharedInstance()\<close> and \<^verbatim>\<open>Auth.none\<close>, the
  environment variable \<^verbatim>\<open>KINVEY_API_VERSION\<close>, and the library function \<^verbatim>\<open>url.format\<close>.
\<close>

record 'w Env =
  cacheRack :: "'w request \<Rightarrow> 'w \<Rightarrow> (error + Response option) \<times> 'w"
  networkRack :: "'w request \<Rightarrow> 'w \<Rightarrow> (error + Response option) \<times> 'w"
  sharedInstance :: Client
  Auth_none :: "'w Auth"
  KINVEY_API_VERSION :: jsval
  url_format :: "UrlObject \<Rightarrow> string"

subsection \<open>Method\<close>

definition set_method :: "jsval \<Rightarrow> 'w request \<Rightarrow> error + 'w request" where
  "set_method v this =
     (case method_setter v of
        Inl e \<Rightarrow> Inl e
      | Inr m \<Rightarrow> Inr (this\<lparr>http_method := m\<rparr>))"

subsection \<open>Header store\<close>

fun getHeader_loop :: "jsobject \<Rightarrow> string list \<Rightarrow> string \<Rightarrow> jsval" where
  "getHeader_loop hs [] header = JUndefined"
| "getHeader_loop hs (key # keys) header =
     (if toLowerCase key = toLowerCase header then obj_get hs key
      else getHeader_loop hs keys header)"

definition getHeader :: "string \<Rightarrow> 'w request \<Rightarrow> jsval" where
  "getHeader header this = getHeader_loop (headers this) (Object_keys (headers this)) header"

text \<open>
  The assignment \<^verbatim>\<open>headers[key] = value\<close>. It writes an own property, except for the key
  \<^verbatim>\<open>__proto__\<close> when the store has no own property of that name and the first property of
  that name along its prototypes is the accessor of \<^verbatim>\<open>Object.prototype\<close>: then the setter
  runs, which makes an object, an array or \<^verbatim>\<open>null\<close> the new prototype, ignores any other
  value, and leaves the own properties as they are. The accessor is out of reach when the
  prototype is \<^verbatim>\<open>null\<close>, and behind a data property when the prototype is an object with
  an own key \<^verbatim>\<open>__proto__\<close>.
\<close>

definition writes_own_property :: "jsobject \<Rightarrow> prototype \<Rightarrow> string \<Rightarrow> bool" where
  "writes_own_property own proto key \<longleftrightarrow>
     key \<noteq> ''__proto__'' \<or> key \<in> set (Object_keys own) \<or>
     (case proto of
        NullPrototype \<Rightarrow> True
      | ValuePrototype (JObj p) \<Rightarrow> ''__proto__'' \<in> set (Object_keys p)
      | _ \<Rightarrow> False)"

fun proto_setter :: "prototype \<Rightarrow> jsval \<Rightarrow> prototype" where
  "proto_setter proto (JObj p) = ValuePrototype (JObj p)"
| "proto_setter proto (JArr a) = ValuePrototype (JArr a)"
| "proto_setter proto JNull = NullPrototype"
| "proto_setter proto v = proto"

definition setHeader :: "string \<Rightarrow> jsval \<Rightarrow> 'w request \<Rightarrow> 'w request" where
  "setHeader header v this =
     (if writes_own_property (headers this) (headers_prototype this) (toLowerCase header)
      then this\<lparr>headers := obj_set (headers this) (toLowerCase header) v\<rparr>
      else this\<lparr>headers_prototype := proto_setter (headers_prototype this) v\<rparr>)"

definition addHeaders :: "jsobject \<Rightarrow> 'w request \<Rightarrow> 'w request" where
  "addHeaders hs this =
     fold (\<lambda>header r. setHeader header (obj_get hs header) r) (Object_keys hs) this"


subsection \<open>Constructor\<close>

text \<open>
  The \<^verbatim>\<open>options\<close> argument; a field that is \<open>None\<close> is a key the caller left out, and
  \<^verbatim>\<open>assign\<close> keeps the default for it. The client and the query are typed here, so the two
  \<^verbatim>\<open>instanceof\<close> checks of the constructor cannot fail; the only error left is the method
  setter's.
\<close>

record 'w options =
  opt_auth :: "'w Auth option"
  opt_client :: "Client option"
  opt_dataPolicy :: "DataPolicy option"
  opt_flags :: "jsobject option"

definition default_headers :: "'w Env \<Rightarrow> jsobject" where
  "default_headers env =
     [(''Accept'', JStr ''application/json''),
      (''Content-Type'', JStr ''application/json''),
      (''X-Kinvey-Api-Version'', KINVEY_API_VERSION env)]"

definition PrivateRequest ::
  "'w Env \<Rightarrow> jsval \<Rightarrow> string \<Rightarrow> Query option \<Rightarrow> jsval \<Rightarrow> 'w options \<Rightarrow> error + 'w request" where
  "PrivateRequest env meth pth qry bdy opts =
     (let o_auth = (case opt_auth opts of Some a \<Rightarrow> a | None \<Rightarrow> Auth_none env);
          o_client = (case opt_client opts of Some c \<Rightarrow> c | None \<Rightarrow> sharedInstance env);
          o_dataPolicy = (case opt_dataPolicy opts of Some p \<Rightarrow> p | None \<Rightarrow> CloudFirst)
      in case method_setter (if meth = JUndefined then JStr (HttpMethod_value GET) else meth) of
           Inl e \<Rightarrow> Inl e
         | Inr m \<Rightarrow>
             Inr (addHeaders (default_headers env)
                   \<lparr>http_method = m, headers = [], headers_prototype = ObjectPrototype,
                    protocol = apiProtocol o_client,
                    host = apiHost o_client, path = pth, query = qry, flags = opt_flags opts,
                    body = bdy, responseType = [], client = o_client, auth = o_auth,
                    dataPolicy = o_dataPolicy, executing = False, response = None\<rparr>))"

subsection \<open>URL\<close>

text \<open>
  \<^verbatim>\<open>merge\<close> of lodash 3 (\<^verbatim>\<open>lodash/object/merge\<close>), a library the module imports:
  it recursively merges the own enumerable properties of each source that do not resolve to
  \<^verbatim>\<open>undefined\<close> into the destination object, later sources overwriting earlier ones. An
  array or a plain object in the source is merged into the destination's value of the same
  kind; a destination value of another kind gives way to a fresh \<^verbatim>\<open>[]\<close> or \<^verbatim>\<open>{}\<close> (a
  string under an array is first copied to the array of its characters). Any other source
  value is assigned as it is.
  \<open>mergeProp value srcValue\<close> is the property \<^verbatim>\<open>object[key]\<close> after the step for one key,
  from its value before (\<open>None\<close>: no such property) and the source's value.
\<close>

fun mergeProp :: "jsval option \<Rightarrow> jsval \<Rightarrow> jsval option"
  and baseMerge_props :: "jsobject \<Rightarrow> jsobject \<Rightarrow> jsobject"
  and baseMerge_elems :: "jsval list \<Rightarrow> jsval list \<Rightarrow> jsval list" where
  "mergeProp value (JObj src) =
     Some (JObj (baseMerge_props (case value of Some (JObj obj) \<Rightarrow> obj | _ \<Rightarrow> []) src))"
| "mergeProp value (JArr src) =
     Some (JArr (baseMerge_elems
        (case value of
           Some (JArr a) \<Rightarrow> a
         | Some (JStr s) \<Rightarrow> map (\<lambda>c. JStr [c]) s
         | _ \<Rightarrow> []) src))"
| "mergeProp value JUndefined = value"
| "mergeProp value JNull = Some JNull"
| "mergeProp value (JBool b) = Some (JBool b)"
| "mergeProp value (JNum n) = Some (JNum n)"
| "mergeProp value (JStr s) = Some (JStr s)"
| "baseMerge_props object [] = object"
| "baseMerge_props object ((key, srcValue) # source) =
     baseMerge_props
       (case mergeProp (map_of object key) srcValue of
          Some v \<Rightarrow> obj_set object key v
        | None \<Rightarrow> object) source"
| "baseMerge_elems object [] = object"
| "baseMerge_elems [] (srcValue # source) =
     (case mergeProp None srcValue of Some v \<Rightarrow> v | None \<Rightarrow> JUndefined)
       # baseMerge_elems [] source"
| "baseMerge_elems (value # object) (srcValue # source) =
     (case mergeProp (Some value) srcValue of Some v \<Rightarrow> v | None \<Rightarrow> JUndefined)
       # baseMerge_elems object source"

text \<open>The values \<^verbatim>\<open>merge\<close> assigns as they are: \<^verbatim>\<open>null\<close>, booleans, numbers and strings.\<close>

fun isPrimitive :: "jsval \<Rightarrow> bool" where
  "isPrimitive JNull = True"
| "isPrimitive (JBool b) = True"
| "isPrimitive (JNum n) = True"
| "isPrimitive (JStr s) = True"
| "isPrimitive JUndefined = False"
| "isPrimitive (JArr a) = False"
| "isPrimitive (JObj obj) = False"

text \<open>\<^verbatim>\<open>merge(object, ...sources)\<close>: a source that is \<^verbatim>\<open>undefined\<close> is skipped.\<close>

definition merge :: "jsobject \<Rightarrow> jsobject option list \<Rightarrow> jsobject" where
  "merge object sources =
     fold (\<lambda>source obj. case source of Some s \<Rightarrow> baseMerge_props obj s | None \<Rightarrow> obj)
       sources object"

text \<open>\<^verbatim>\<open>result(this.query, 'toJSON', {})\<close>: the serialization, or \<^verbatim>\<open>{}\<close> without a query.\<close>

definition result_toJSON :: "Query option \<Rightarrow> jsobject" where
  "result_toJSON q = (case q of Some qq \<Rightarrow> toJSON qq | None \<Rightarrow> [])"

text \<open>
  The getter \<^verbatim>\<open>url\<close>. No statement of the class ever assigns \<^verbatim>\<open>this.hash\<close>, so the
  \<^verbatim>\<open>hash\<close> it passes is \<^verbatim>\<open>undefined\<close>.
\<close>

definition url_query_of :: "'w request \<Rightarrow> jsobject" where
  "url_query_of this = merge [] [flags this, Some (result_toJSON (query this))]"

definition url :: "'w Env \<Rightarrow> 'w request \<Rightarrow> string" where
  "url env this =
     url_format env
       \<lparr>url_protocol = protocol this, url_host = host this, url_pathname = path this,
        url_query = url_query_of this, url_hash = JUndefined\<rparr>"

section \<open>Policy executor\<close>

text \<open>
  The observable steps of an execution, in order: each call of a rack's \<^verbatim>\<open>execute\<close> with
  the request as it is at that moment, and each call of an auth function with the client.
\<close>

datatype layer = CacheLayer | NetworkLayer

datatype 'w event = RackExecute layer "'w request" | AuthInvoke Client

text \<open>
  A settled promise of the executor: the value it resolved with (\<open>Inr\<close>; \<open>None\<close> is a rack
  that resolved with no Response) or the error it rejected with (\<open>Inl\<close>), the request
  object after the call, the state of the world after it, and the steps it made.
\<close>

type_synonym 'w promise = "(error + Response option) \<times> 'w request \<times> 'w \<times> 'w event list"

definition outcome :: "'w promise \<Rightarrow> error + Response option" where
  "outcome p = fst p"

definition request_after :: "'w promise \<Rightarrow> 'w request" where
  "request_after p = fst (snd p)"

definition world_after :: "'w promise \<Rightarrow> 'w" where
  "world_after p = fst (snd (snd p))"

definition steps :: "'w promise \<Rightarrow> 'w event list" where
  "steps p = snd (snd (snd p))"

definition executeLocal :: "'w Env \<Rightarrow> 'w request \<Rightarrow> 'w \<Rightarrow> 'w promise" where
  "executeLocal env this w =
     (case cacheRack env this w of (out, w') \<Rightarrow> (out, this, w', [RackExecute CacheLayer this]))"

text \<open>
  \<^verbatim>\<open>new Buffer(s).toString('base64')\<close>: the UTF-8 bytes of the string (a character is read
  as a code point below 256), in the base64 alphabet with padding.
\<close>

definition utf8_bytes :: "string \<Rightarrow> nat list" where
  "utf8_bytes s =
     concat (map (\<lambda>c. let n = (of_char c :: nat)
                      in if n < 128 then [n] else [192 + n div 64, 128 + n mod 64]) s)"

definition base64_digit :: "nat \<Rightarrow> char" where
  "base64_digit n =
     ''ABCDEFGHIJKLMNOPQRSTUVWXYZabcdefghijklmnopqrstuvwxyz0123456789+/'' ! n"

fun base64_bytes :: "nat list \<Rightarrow> string" where
  "base64_bytes [] = []"
| "base64_bytes [a] =
     [base64_digit (a div 4), base64_digit ((a mod 4) * 16), CHR ''='', CHR ''='']"
| "base64_bytes [a, b] =
     [base64_digit (a div 4), base64_digit ((a mod 4) * 16 + b div 16),
      base64_digit ((b mod 16) * 4), CHR ''='']"
| "base64_bytes (a # b # c # bs) =
     [base64_digit (a div 4), base64_digit ((a mod 4) * 16 + b div 16),
      base64_digit ((b mod 16) * 4 + c div 64), base64_digit (c mod 64)] @ base64_bytes bs"

definition base64 :: "string \<Rightarrow> string" where
  "base64 s = base64_bytes (utf8_bytes s)"

text \<open>A field inside a template literal: \<^verbatim>\<open>undefined\<close> prints as its name.\<close>

definition template :: "string option \<Rightarrow> string" where
  "template x = (case x of Some s \<Rightarrow> s | None \<Rightarrow> ''undefined'')"

text \<open>The value \<^verbatim>\<open>executeCloud\<close> computes for the \<^verbatim>\<open>Authorization\<close> header.\<close>

definition authorization :: "AuthInfo \<Rightarrow> string" where
  "authorization authInfo =
     (let creds = (case username authInfo of
                     Some u \<Rightarrow> Some (base64 (u @ '':'' @ template (password authInfo)))
                   | None \<Rightarrow> credentials authInfo)
      in scheme authInfo @ '' '' @ template creds)"

text \<open>\<^verbatim>\<open>rack.execute(this)\<close> on the network rack, after the steps \<open>t\<close> made so far.\<close>

definition rack_execute_network :: "'w Env \<Rightarrow> 'w request \<Rightarrow> 'w \<Rightarrow> 'w event list \<Rightarrow> 'w promise" where
  "rack_execute_network env this w t =
     (case networkRack env this w of
        (out, w') \<Rightarrow> (out, this, w', t @ [RackExecute NetworkLayer this]))"

text \<open>
  \<^verbatim>\<open>isFunction(auth) ? auth(this.client) : Promise.resolve(auth)\<close>: what the auth
  strategy resolves to, the world after, and the step made.
\<close>

definition resolve_auth ::
  "'w Auth \<Rightarrow> Client \<Rightarrow> 'w \<Rightarrow> (error + authValue) \<times> 'w \<times> 'w event list" where
  "resolve_auth a c w =
     (case a of
        AuthFunction f \<Rightarrow> (case f c w of (v, w') \<Rightarrow> (v, w', [AuthInvoke c]))
      | AuthValue v \<Rightarrow> (Inr v, w, []))"

definition executeCloud :: "'w Env \<Rightarrow> 'w request \<Rightarrow> 'w \<Rightarrow> 'w promise" where
  "executeCloud env this w =
     (if isDefined (auth this) then
        (case resolve_auth (auth this) (client this) w of
           (Inl err, w1, t1) \<Rightarrow> (Inl err, this, w1, t1)
         | (Inr AuthNull, w1, t1) \<Rightarrow> rack_execute_network env this w1 t1
         | (Inr AuthUndefined, w1, t1) \<Rightarrow>
             (Inl (TypeError ''Cannot read property credentials of undefined''), this, w1, t1)
         | (Inr (Credentials authInfo), w1, t1) \<Rightarrow>
             rack_execute_network env
               (setHeader ''Authorization'' (JStr (authorization authInfo)) this) w1 t1)
      else rack_execute_network env this w [])"

text \<open>The property read \<^verbatim>\<open>response.data\<close>, which throws when there is no Response.\<close>

definition response_data :: "Response option \<Rightarrow> error + jsval" where
  "response_data res =
     (case res of
        Some r \<Rightarrow> Inr (data r)
      | None \<Rightarrow> Inl (TypeError ''Cannot read property data of undefined''))"

text \<open>The test \<^verbatim>\<open>response && response.isSuccess()\<close>.\<close>

definition truthy_isSuccess :: "Response option \<Rightarrow> bool" where
  "truthy_isSuccess res = (case res of Some r \<Rightarrow> isSuccess r | None \<Rightarrow> False)"

text \<open>
  The two statements that \<^verbatim>\<open>execute\<close> repeats in each of its four branches:
  \<^verbatim>\<open>new PrivateRequest(method, this.path, this.query, response.data, { client: this.client, dataPolicy })\<close>
  followed by \<^verbatim>\<open>privateRequest.auth = this.auth\<close>.
\<close>

definition derivedRequest ::
  "'w Env \<Rightarrow> HttpMethod \<Rightarrow> 'w request \<Rightarrow> Response option \<Rightarrow> DataPolicy \<Rightarrow> error + 'w request" where
  "derivedRequest env meth this res policy =
     (case response_data res of
        Inl err \<Rightarrow> Inl err
      | Inr d \<Rightarrow>
          (case PrivateRequest env (JStr (HttpMethod_value meth)) (path this) (query this) d
                  \<lparr>opt_auth = None, opt_client = Some (client this),
                   opt_dataPolicy = Some policy, opt_flags = None\<rparr> of
             Inl err \<Rightarrow> Inl err
           | Inr privateRequest \<Rightarrow> Inr (privateRequest\<lparr>auth := auth this\<rparr>)))"

text \<open>
  \<^verbatim>\<open>return privateRequest.execute().then(() => response)\<close> and
  \<^verbatim>\<open>return privateRequest.execute()\<close>, seen from the enclosing request: the derived request
  object is dropped, the world and the steps are kept.
\<close>

definition then_return :: "Response option \<Rightarrow> 'w request \<Rightarrow> 'w event list \<Rightarrow> 'w promise \<Rightarrow> 'w promise" where
  "then_return res this t p =
     (case p of
        (Inl err, _, w, t') \<Rightarrow> (Inl err, this, w, t @ t')
      | (Inr _, _, w, t') \<Rightarrow> (Inr res, this, w, t @ t'))"

definition return_promise :: "'w request \<Rightarrow> 'w event list \<Rightarrow> 'w promise \<Rightarrow> 'w promise" where
  "return_promise this t p = (case p of (out, _, w, t') \<Rightarrow> (out, this, w, t @ t'))"

text \<open>The final \<^verbatim>\<open>.then(...).catch(...)\<close> of \<^verbatim>\<open>execute\<close>.\<close>

definition settle :: "'w promise \<Rightarrow> 'w promise" where
  "settle p =
     (case p of
        (Inr resp, this, w, t) \<Rightarrow> (Inr resp, this\<lparr>response := resp, executing := False\<rparr>, w, t)
      | (Inl err, this, w, t) \<Rightarrow> (Inl err, this\<lparr>executing := False\<rparr>, w, t))"

text \<open>
  \<^verbatim>\<open>execute\<close>. A derived request is a new object with its own policy, and the policies it
  is given only go down this order, which is why the recursion ends.
\<close>

fun policy_rank :: "DataPolicy \<Rightarrow> nat" where
  "policy_rank LocalOnly = 0"
| "policy_rank CloudOnly = 0"
| "policy_rank CloudFirst = 1"
| "policy_rank LocalFirst = 2"

function execute :: "'w Env \<Rightarrow> 'w request \<Rightarrow> 'w \<Rightarrow> 'w promise" where
  "execute env this w =
     (if executing this then
        (Inl (KinveyError ''The request is already executing.''), this, w, [])
      else
        let meth = http_method this; this1 = this\<lparr>executing := True\<rparr> in
        settle
          (case dataPolicy this of
             LocalOnly \<Rightarrow> executeLocal env this1 w
           | LocalFirst \<Rightarrow>
               (case executeLocal env this1 w of
                  (Inl err, this2, w2, t2) \<Rightarrow> (Inl err, this2, w2, t2)
                | (Inr res, this2, w2, t2) \<Rightarrow>
                    (if truthy_isSuccess res then
                       (if http_method this2 \<noteq> GET then
                          (case derivedRequest env meth this2 res CloudOnly of
                             Inl err \<Rightarrow> (Inl err, this2, w2, t2)
                           | Inr privateRequest \<Rightarrow>
                               then_return res this2 t2 (execute env privateRequest w2))
                        else (Inr res, this2, w2, t2))
                     else
                       (if http_method this2 = GET then
                          (case derivedRequest env meth this2 res CloudFirst of
                             Inl err \<Rightarrow> (Inl err, this2, w2, t2)
                           | Inr privateRequest \<Rightarrow>
                               return_promise this2 t2 (execute env privateRequest w2))
                        else (Inr res, this2, w2, t2))))
           | CloudOnly \<Rightarrow> executeCloud env this1 w
           | CloudFirst \<Rightarrow>
               (case executeCloud env this1 w of
                  (Inl err, this2, w2, t2) \<Rightarrow> (Inl err, this2, w2, t2)
                | (Inr res, this2, w2, t2) \<Rightarrow>
                    (if truthy_isSuccess res then
                       (case derivedRequest env meth this2 res LocalOnly of
                          Inl err \<Rightarrow> (Inl err, this2, w2, t2)
                        | Inr privateRequest \<Rightarrow>
                            (case (if meth = GET
                                   then set_method (JStr (HttpMethod_value PUT)) privateRequest
                                   else Inr privateRequest) of
                               Inl err \<Rightarrow> (Inl err, this2, w2, t2)
                             | Inr privateRequest' \<Rightarrow>
                                 then_return res this2 t2 (execute env privateRequest' w2)))
                     else if http_method this2 = GET then
                       (case derivedRequest env meth this2 res LocalOnly of
                          Inl err \<Rightarrow> (Inl err, this2, w2, t2)
                        | Inr privateRequest \<Rightarrow>
                            return_promise this2 t2 (execute env privateRequest w2))
                     else (Inr res, this2, w2, t2)))))"
  by pat_completeness auto
termination
proof -
  have added: "dataPolicy (addHeaders hs r) = dataPolicy r" for hs and r :: "'a request"
  proof -
    have "dataPolicy (fold (\<lambda>header r. setHeader header (obj_get hs header) r) ks r)
        = dataPolicy r" for ks
      by (induction ks arbitrary: r) (simp_all add: setHeader_def)
    then show ?thesis by (simp add: addHeaders_def)
  qed
  have derived: "dataPolicy d = pol"
    if "derivedRequest env m this res pol = Inr d"
    for env :: "'a Env" and m this res pol d
    using that
    by (auto simp: derivedRequest_def PrivateRequest_def Let_def added split: sum.splits)
  have assigned: "dataPolicy r' = dataPolicy r"
    if "set_method v r = Inr r'" for v and r r' :: "'a request"
    using that by (auto simp: set_method_def split: sum.splits)
  show ?thesis
  proof (relation "measure (\<lambda>(env, this, w). policy_rank (dataPolicy this))")
    show "wf (measure (\<lambda>(env, this, w). policy_rank (dataPolicy this)))" by simp
  qed (auto dest!: derived dest: assigned split: if_splits)
qed

declare execute.simps [simp del]

subsection \<open>Descriptors\<close>

text \<open>
  The header store keeps its keys in lower case: \<^verbatim>\<open>setHeader\<close> is the only writer of
  \<^verbatim>\<open>headers\<close>, and it lower-cases the name.
\<close>

definition headers_lowercase :: "jsobject \<Rightarrow> bool" where
  "headers_lowercase hs = list_all (\<lambda>key. toLowerCase key = key) (Object_keys hs)"


subsection \<open>A concrete setting\<close>

text \<open>
  A small world to run the executor in. The state of the world counts the rack calls made
  so far. The cache is empty: it misses every read and accepts every write. The network
  serves every path but \<^verbatim>\<open>/down\<close>. Both racks answer with a status and the body they were
  sent.
\<close>

definition example_client :: Client where
  "example_client = \<lparr>apiProtocol = ''https:'', apiHost = ''baas.kinvey.com''\<rparr>"

definition example_cache_response :: "nat request \<Rightarrow> Response" where
  "example_cache_response req =
     (if http_method req = GET
      then \<lparr>data = JObj [(''status'', JStr ''EntityNotFound''), (''echo'', body req)],
            isSuccess = False\<rparr>
      else \<lparr>data = JObj [(''status'', JStr ''stored''), (''echo'', body req)],
            isSuccess = True\<rparr>)"

definition example_cacheRack :: "nat request \<Rightarrow> nat \<Rightarrow> (error + Response option) \<times> nat" where
  "example_cacheRack req n = (Inr (Some (example_cache_response req)), Suc n)"

definition example_network_response :: "nat request \<Rightarrow> Response" where
  "example_network_response req =
     (if path req = ''/down''
      then \<lparr>data = JObj [(''status'', JStr ''ServiceUnavailable''), (''echo'', body req)],
            isSuccess = False\<rparr>
      else \<lparr>data = JObj [(''status'', JStr ''ok''), (''echo'', body req)],
            isSuccess = True\<rparr>)"

definition example_networkRack :: "nat request \<Rightarrow> nat \<Rightarrow> (error + Response option) \<times> nat" where
  "example_networkRack req n = (Inr (Some (example_network_response req)), Suc n)"

definition example_env :: "nat Env" where
  "example_env =
     \<lparr>cacheRack = example_cacheRack, networkRack = example_networkRack,
      sharedInstance = example_client, Auth_none = AuthFunction (\<lambda>c n. (Inr AuthNull, n)),
      KINVEY_API_VERSION = JStr ''3'', url_format = (\<lambda>u. url_protocol u @ ''//'' @ url_host u @ url_pathname u)\<rparr>"

text \<open>The same setting with a cache rack, or a network rack, whose promise rejects.\<close>

definition cache_rejecting_env :: "nat Env" where
  "cache_rejecting_env =
     example_env\<lparr>cacheRack := \<lambda>req n. (Inl (Rejection ''disk full''), n)\<rparr>"

definition network_rejecting_env :: "nat Env" where
  "network_rejecting_env =
     example_env\<lparr>networkRack := \<lambda>req n. (Inl (Rejection ''offline''), n)\<rparr>"

definition example_options :: "DataPolicy \<Rightarrow> nat options" where
  "example_options pol =
     \<lparr>opt_auth = None, opt_client = Some example_client, opt_dataPolicy = Some pol,
      opt_flags = None\<rparr>"

text \<open>The request \<^verbatim>\<open>new PrivateRequest(m, p, undefined, 'original', { client, dataPolicy })\<close>.\<close>

definition example_request :: "HttpMethod \<Rightarrow> string \<Rightarrow> DataPolicy \<Rightarrow> nat request" where
  "example_request m p pol =
     \<lparr>http_method = m,
      headers = [(''accept'', JStr ''application/json''),
                 (''content-type'', JStr ''application/json''),
                 (''x-kinvey-api-version'', JStr ''3'')],
      headers_prototype = ObjectPrototype, protocol = ''https:'', host = ''baas.kinvey.com'',
      path = p, query = None, flags = None,
      body = JStr ''original'', responseType = [], client = example_client,
      auth = AuthFunction (\<lambda>c n. (Inr AuthNull, n)), dataPolicy = pol, executing = False,
      response = None\<rparr>"

text \<open>
  Two auth strategies: a function that resolves with a session token after one step of the
  world, and a static credential set with a user name and a password.
\<close>

definition example_session_auth :: "nat Auth" where
  "example_session_auth =
     AuthFunction (\<lambda>c n. (Inr (Credentials \<lparr>scheme = ''Kinvey'', credentials = Some ''token123'',
                                             username = None, password = None\<rparr>), Suc n))"

definition example_basic_auth :: "nat Auth" where
  "example_basic_auth =
     AuthValue (Credentials \<lparr>scheme = ''Basic'', credentials = None,
                             username = Some ''kid'', password = Some ''secret''\<rparr>)"

text \<open>
  Flags and a query that share the keys \<^verbatim>\<open>sort\<close> and \<^verbatim>\<open>limit\<close>: the request
  \<^verbatim>\<open>{ flags: { sort: { name: 1 }, limit: 10, skip: 5 } }\<close> with a query whose \<^verbatim>\<open>toJSON()\<close> is
  \<^verbatim>\<open>{ sort: { age: 1 }, limit: undefined, skip: 0 }\<close>.
\<close>

definition example_flags :: jsobject where
  "example_flags =
     [(''sort'', JObj [(''name'', JNum 1)]), (''limit'', JNum 10), (''skip'', JNum 5)]"

definition example_query :: Query where
  "example_query =
     Query [(''sort'', JObj [(''age'', JNum 1)]), (''limit'', JUndefined), (''skip'', JNum 0)]"

subsection \<open>The fallback request as the specification words it\<close>

text \<open>
  The specification says of the two read fallbacks (local-first read that misses, cloud-first
  read that fails) that the derived descriptor has the same method, path, query and body as
  the original. This is that descriptor, built like the ones of \<^verbatim>\<open>execute\<close> but from the
  original body, to compare with what \<^verbatim>\<open>execute\<close> builds.
\<close>

definition claimed_fallback :: "'w Env \<Rightarrow> 'w request \<Rightarrow> DataPolicy \<Rightarrow> error + 'w request" where
  "claimed_fallback env this policy =
     (case PrivateRequest env (JStr (HttpMethod_value (http_method this))) (path this)
             (query this) (body this)
             \<lparr>opt_auth = None, opt_client = Some (client this),
              opt_dataPolicy = Some policy, opt_flags = None\<rparr> of
        Inl err \<Rightarrow> Inl err
      | Inr privateRequest \<Rightarrow> Inr (privateRequest\<lparr>auth := auth this\<rparr>))"

section \<open>Strings and the header store\<close>

lemma toLowerCase_char_idem: "toLowerCase_char (toLowerCase_char c) = toLowerCase_char c"
proof -
  define n where "n = (of_char c :: nat)"
  show ?thesis
  proof (cases "(65 \<le> n \<and> n \<le> 90) \<or> (192 \<le> n \<and> n \<le> 222 \<and> n \<noteq> 215)")
    case True
    then have l: "toLowerCase_char c = char_of (n + 32)"
      by (simp add: toLowerCase_char_def n_def Let_def)
    from True have "(n + 32) mod 256 = n + 32"
      by auto
    then have "(of_char (char_of (n + 32) :: char) :: nat) = n + 32"
      by simp
    with True show ?thesis
      unfolding l by (auto simp: toLowerCase_char_def Let_def)
  next
    case False
    then have "toLowerCase_char c = c"
      by (auto simp: toLowerCase_char_def n_def Let_def)
    then show ?thesis by simp
  qed
qed

lemma toLowerCase_idem: "toLowerCase (toLowerCase s) = toLowerCase s"
  by (simp add: toLowerCase_def toLowerCase_char_idem)

lemma toLowerCase_Authorization: "toLowerCase ''Authorization'' = ''authorization''"
  by code_simp

lemma getHeader_loop_found:
  assumes "list_all (\<lambda>key. toLowerCase key = key) keys" and "toLowerCase h \<in> set keys"
  shows "getHeader_loop hs keys h = obj_get hs (toLowerCase h)"
  using assms by (induction keys) auto

lemma Object_keys_obj_set: "set (Object_keys (obj_set hs k v)) = insert k (set (Object_keys hs))"
  by (simp add: Object_keys_def obj_set_def flip: dom_map_of_conv_image_fst add: update_conv')


lemma obj_get_obj_set: "obj_get (obj_set hs k v) k' = (if k' = k then v else obj_get hs k')"
  by (simp add: obj_get_def obj_set_def update_conv')

lemma headers_lowercase_obj_set:
  "headers_lowercase hs \<Longrightarrow> toLowerCase k = k \<Longrightarrow> headers_lowercase (obj_set hs k v)"
  by (auto simp: headers_lowercase_def list_all_iff Object_keys_obj_set)

lemma setHeader_fields:
  "dataPolicy (setHeader h v r) = dataPolicy r"
  "executing (setHeader h v r) = executing r"
  "http_method (setHeader h v r) = http_method r"
  "path (setHeader h v r) = path r"
  "query (setHeader h v r) = query r"
  "body (setHeader h v r) = body r"
  "client (setHeader h v r) = client r"
  "auth (setHeader h v r) = auth r"
  "flags (setHeader h v r) = flags r"
  "protocol (setHeader h v r) = protocol r"
  "host (setHeader h v r) = host r"
  "response (setHeader h v r) = response r"
  by (simp_all add: setHeader_def)

lemma setHeader_own:
  "toLowerCase h \<noteq> ''__proto__'' \<Longrightarrow>
   setHeader h v this = this\<lparr>headers := obj_set (headers this) (toLowerCase h) v\<rparr>"
  by (simp add: setHeader_def writes_own_property_def)

lemma setHeader_Authorization:
  "setHeader ''Authorization'' v this = this\<lparr>headers := obj_set (headers this) ''authorization'' v\<rparr>"
  by (simp add: setHeader_own toLowerCase_Authorization)





lemma getHeader_setHeader:
  assumes "headers_lowercase (headers this)" and "toLowerCase name \<noteq> ''__proto__''"
    and "toLowerCase name' = toLowerCase name"
  shows "getHeader name' (setHeader name v this) = v"
proof -
  let ?hs = "obj_set (headers this) (toLowerCase name) v"
  have low: "headers_lowercase ?hs"
    using assms(1) by (rule headers_lowercase_obj_set) (rule toLowerCase_idem)
  have mem: "toLowerCase name' \<in> set (Object_keys ?hs)"
    using assms(3) by (simp add: Object_keys_obj_set)
  have "getHeader_loop ?hs (Object_keys ?hs) name' = obj_get ?hs (toLowerCase name')"
    using low mem unfolding headers_lowercase_def by (rule getHeader_loop_found)
  then show ?thesis
    using assms(3) by (simp add: getHeader_def setHeader_own [OF assms(2)] obj_get_obj_set)
qed

lemma getHeader_setHeader_Authorization:
  "headers_lowercase (headers this) \<Longrightarrow>
   getHeader ''Authorization'' (setHeader ''Authorization'' v this) = v"
  by (rule getHeader_setHeader) (simp_all add: toLowerCase_Authorization)

section \<open>The method setter\<close>

lemma method_setter_value: "method_setter (JStr (HttpMethod_value m)) = Inr m"
  by (cases m; hypsubst; code_simp)

lemma HttpMethod_switch_Some: "HttpMethod_switch s = Some m \<longleftrightarrow> s = HttpMethod_value m"
  by (cases m) (auto simp: HttpMethod_switch_def split: if_splits)

lemma HttpMethod_switch_None:
  "HttpMethod_switch s = None \<longleftrightarrow>
   s \<notin> set [''OPTIONS'', ''GET'', ''POST'', ''PATCH'', ''PUT'', ''DELETE'']"
  by (auto simp: HttpMethod_switch_def)

lemma HttpMethod_value_inj: "HttpMethod_value a = HttpMethod_value b \<longleftrightarrow> a = b"
  by (cases a; cases b; simp)

lemma HttpMethod_value_listed:
  "HttpMethod_value m \<in> set [''OPTIONS'', ''GET'', ''POST'', ''PATCH'', ''PUT'', ''DELETE'']"
  by (cases m) simp_all

lemma method_setter_Inr:
  "method_setter v = Inr m \<longleftrightarrow> (\<exists>s. v = JStr s \<and> toUpperCase s = HttpMethod_value m)"
proof (cases v)
  case (JStr s)
  show ?thesis
  proof (cases "HttpMethod_switch (toUpperCase s)")
    case None
    then have "toUpperCase s \<noteq> HttpMethod_value m"
      using HttpMethod_value_listed [of m] unfolding HttpMethod_switch_None by metis
    with None JStr show ?thesis by (simp add: method_setter_def)
  next
    case (Some m')
    then have "toUpperCase s = HttpMethod_value m'"
      unfolding HttpMethod_switch_Some .
    with Some JStr show ?thesis by (auto simp: method_setter_def HttpMethod_value_inj)
  qed
qed (simp_all add: method_setter_def)

lemma method_setter_Inl:
  "(\<exists>e. method_setter v = Inl e) \<longleftrightarrow>
   (case v of
      JStr s \<Rightarrow> toUpperCase s \<notin> set [''OPTIONS'', ''GET'', ''POST'', ''PATCH'', ''PUT'', ''DELETE'']
    | _ \<Rightarrow> True)"
proof (cases v)
  case (JStr s)
  show ?thesis
  proof (cases "HttpMethod_switch (toUpperCase s)")
    case None
    then have "toUpperCase s \<notin> set [''OPTIONS'', ''GET'', ''POST'', ''PATCH'', ''PUT'', ''DELETE'']"
      unfolding HttpMethod_switch_None .
    with None JStr show ?thesis
      by (simp add: method_setter_def del: set_simps)
  next
    case (Some m')
    then have "toUpperCase s \<in> set [''OPTIONS'', ''GET'', ''POST'', ''PATCH'', ''PUT'', ''DELETE'']"
      using HttpMethod_value_listed [of m'] unfolding HttpMethod_switch_Some by simp
    with Some JStr show ?thesis
      by (simp add: method_setter_def del: set_simps)
  qed
qed (simp_all add: method_setter_def)

section \<open>The example request\<close>

lemma toLowerCase_default_headers:
  "toLowerCase ''Accept'' = ''accept''"
  "toLowerCase ''Content-Type'' = ''content-type''"
  "toLowerCase ''X-Kinvey-Api-Version'' = ''x-kinvey-api-version''"
  by code_simp+

lemma PrivateRequest_example:
  "PrivateRequest example_env (JStr (HttpMethod_value m)) p None (JStr ''original'') (example_options pol)
   = Inr (example_request m p pol)"
  by (simp add: PrivateRequest_def method_setter_value example_env_def example_options_def
      example_request_def example_client_def default_headers_def addHeaders_def setHeader_def
      writes_own_property_def Object_keys_def obj_get_def obj_set_def
      toLowerCase_default_headers)

section \<open>The executor\<close>

lemma outcome_simp [simp]: "outcome (a, b, c, d) = a"
  by (simp add: outcome_def)

lemma request_after_simp [simp]: "request_after (a, b, c, d) = b"
  by (simp add: request_after_def)

lemma world_after_simp [simp]: "world_after (a, b, c, d) = c"
  by (simp add: world_after_def)

lemma steps_simp [simp]: "steps (a, b, c, d) = d"
  by (simp add: steps_def)

lemma execute_executing:
  "executing this \<Longrightarrow>
   execute env this w = (Inl (KinveyError ''The request is already executing.''), this, w, [])"
  by (subst execute.simps) simp

lemma execute_LocalOnly:
  "\<not> executing this \<Longrightarrow> dataPolicy this = LocalOnly \<Longrightarrow>
   execute env this w = settle (executeLocal env (this\<lparr>executing := True\<rparr>) w)"
  by (subst execute.simps) simp

lemma execute_CloudOnly:
  "\<not> executing this \<Longrightarrow> dataPolicy this = CloudOnly \<Longrightarrow>
   execute env this w = settle (executeCloud env (this\<lparr>executing := True\<rparr>) w)"
  by (subst execute.simps) simp

lemma execute_LocalFirst:
  assumes "\<not> executing this" and "dataPolicy this = LocalFirst"
  shows "execute env this w =
     settle
       (case executeLocal env (this\<lparr>executing := True\<rparr>) w of
          (Inl err, this2, w2, t2) \<Rightarrow> (Inl err, this2, w2, t2)
        | (Inr res, this2, w2, t2) \<Rightarrow>
            (if truthy_isSuccess res then
               (if http_method this2 \<noteq> GET then
                  (case derivedRequest env (http_method this) this2 res CloudOnly of
                     Inl err \<Rightarrow> (Inl err, this2, w2, t2)
                   | Inr privateRequest \<Rightarrow>
                       then_return res this2 t2 (execute env privateRequest w2))
                else (Inr res, this2, w2, t2))
             else
               (if http_method this2 = GET then
                  (case derivedRequest env (http_method this) this2 res CloudFirst of
                     Inl err \<Rightarrow> (Inl err, this2, w2, t2)
                   | Inr privateRequest \<Rightarrow>
                       return_promise this2 t2 (execute env privateRequest w2))
                else (Inr res, this2, w2, t2))))"
  by (subst execute.simps) (simp add: assms Let_def)

lemma execute_CloudFirst:
  assumes "\<not> executing this" and "dataPolicy this = CloudFirst"
  shows "execute env this w =
     settle
       (case executeCloud env (this\<lparr>executing := True\<rparr>) w of
          (Inl err, this2, w2, t2) \<Rightarrow> (Inl err, this2, w2, t2)
        | (Inr res, this2, w2, t2) \<Rightarrow>
            (if truthy_isSuccess res then
               (case derivedRequest env (http_method this) this2 res LocalOnly of
                  Inl err \<Rightarrow> (Inl err, this2, w2, t2)
                | Inr privateRequest \<Rightarrow>
                    (case (if http_method this = GET
                           then set_method (JStr (HttpMethod_value PUT)) privateRequest
                           else Inr privateRequest) of
                       Inl err \<Rightarrow> (Inl err, this2, w2, t2)
                     | Inr privateRequest' \<Rightarrow>
                         then_return res this2 t2 (execute env privateRequest' w2)))
             else if http_method this2 = GET then
               (case derivedRequest env (http_method this) this2 res LocalOnly of
                  Inl err \<Rightarrow> (Inl err, this2, w2, t2)
                | Inr privateRequest \<Rightarrow>
                    return_promise this2 t2 (execute env privateRequest w2))
             else (Inr res, this2, w2, t2)))"
  by (subst execute.simps) (simp add: assms Let_def)

lemma executeLocal_parts:
  "request_after (executeLocal env this w) = this"
  "steps (executeLocal env this w) = [RackExecute CacheLayer this]"
  "outcome (executeLocal env this w) = fst (cacheRack env this w)"
  "world_after (executeLocal env this w) = snd (cacheRack env this w)"
  by (simp_all add: executeLocal_def split: prod.splits)

lemma settle_parts:
  "outcome (settle p) = outcome p"
  "world_after (settle p) = world_after p"
  "steps (settle p) = steps p"
  "request_after (settle p) =
     (case outcome p of
        Inr res \<Rightarrow> (request_after p)\<lparr>response := res, executing := False\<rparr>
      | Inl err \<Rightarrow> (request_after p)\<lparr>executing := False\<rparr>)"
  by (cases p; cases "fst p"; simp add: settle_def)+

lemma then_return_parts:
  "request_after (then_return res this t p) = this"
  "world_after (then_return res this t p) = world_after p"
  "steps (then_return res this t p) = t @ steps p"
  "outcome (then_return res this t p) = (case outcome p of Inl err \<Rightarrow> Inl err | Inr x \<Rightarrow> Inr res)"
  by (cases p; cases "fst p"; simp add: then_return_def)+

lemma return_promise_parts:
  "request_after (return_promise this t p) = this"
  "world_after (return_promise this t p) = world_after p"
  "steps (return_promise this t p) = t @ steps p"
  "outcome (return_promise this t p) = outcome p"
  by (cases p; simp add: return_promise_def)+

lemma executeCloud_request:
  "request_after (executeCloud env this w) = this \<or>
   (\<exists>v. request_after (executeCloud env this w) = setHeader ''Authorization'' v this)"
  by (auto simp: executeCloud_def rack_execute_network_def
      split: prod.splits sum.splits authValue.splits)

lemma execute_settle_LocalFirst:
  assumes "\<not> executing this" and "dataPolicy this = LocalFirst"
  shows "\<exists>p. execute env this w = settle p \<and> request_after p = this\<lparr>executing := True\<rparr>"
  unfolding execute_LocalFirst [OF assms]
  apply (rule exI, rule conjI, rule refl)
  apply (auto simp: executeLocal_def then_return_parts return_promise_parts
      split: prod.splits sum.splits if_splits)
  done

lemma execute_settle_CloudFirst:
  assumes "\<not> executing this" and "dataPolicy this = CloudFirst"
  shows "\<exists>p. execute env this w = settle p \<and>
           request_after p = request_after (executeCloud env (this\<lparr>executing := True\<rparr>) w)"
  unfolding execute_CloudFirst [OF assms]
  apply (rule exI, rule conjI, rule refl)
  apply (cases "executeCloud env (this\<lparr>executing := True\<rparr>) w")
  apply (auto simp: then_return_parts return_promise_parts
      split: prod.splits sum.splits if_splits)
  done

text \<open>
  What a call leaves of the request object: under the flag set at entry, the request
  itself, or the request with its \<^verbatim>\<open>Authorization\<close> header written.
\<close>

lemma execute_settle:
  assumes "\<not> executing this"
  shows "\<exists>p. execute env this w = settle p \<and>
           (request_after p = this\<lparr>executing := True\<rparr> \<or>
            (\<exists>v. request_after p = setHeader ''Authorization'' v (this\<lparr>executing := True\<rparr>)))"
proof (cases "dataPolicy this")
  case LocalOnly
  have "request_after (executeLocal env (this\<lparr>executing := True\<rparr>) w) = this\<lparr>executing := True\<rparr>"
    by (rule executeLocal_parts)
  then show ?thesis
    unfolding execute_LocalOnly [OF assms LocalOnly] by blast
next
  case CloudOnly
  with assms executeCloud_request [of env "this\<lparr>executing := True\<rparr>" w] show ?thesis
    unfolding execute_CloudOnly [OF assms CloudOnly] by blast
next
  case LocalFirst
  with assms execute_settle_LocalFirst [of this env w] show ?thesis
    by auto
next
  case CloudFirst
  with assms execute_settle_CloudFirst [of this env w]
    executeCloud_request [of env "this\<lparr>executing := True\<rparr>" w] show ?thesis
    by metis
qed


lemma execute_response:
  "response (request_after (execute env this w)) =
     (case outcome (execute env this w) of Inl e \<Rightarrow> response this | Inr res \<Rightarrow> res)"
proof (cases "executing this")
  case True
  then show ?thesis by (simp add: execute_executing)
next
  case False
  from execute_settle [OF False, of env w] obtain p where
    p: "execute env this w = settle p" and
    r: "request_after p = this\<lparr>executing := True\<rparr> \<or>
        (\<exists>v. request_after p = setHeader ''Authorization'' v (this\<lparr>executing := True\<rparr>))"
    by blast
  from r show ?thesis
    unfolding p settle_parts by (cases "outcome p") (auto simp: setHeader_fields)
qed



subsection \<open>Derived requests and the steps of a call\<close>

lemma addHeaders_fields:
  "dataPolicy (addHeaders hs r) = dataPolicy r"
  "executing (addHeaders hs r) = executing r"
  "http_method (addHeaders hs r) = http_method r"
  "path (addHeaders hs r) = path r"
  "query (addHeaders hs r) = query r"
  "body (addHeaders hs r) = body r"
  "client (addHeaders hs r) = client r"
  "auth (addHeaders hs r) = auth r"
  "flags (addHeaders hs r) = flags r"
  "protocol (addHeaders hs r) = protocol r"
  "host (addHeaders hs r) = host r"
  "response (addHeaders hs r) = response r"
proof -
  have "dataPolicy (fold (\<lambda>header r. setHeader header (obj_get hs header) r) ks r) = dataPolicy r \<and>
        executing (fold (\<lambda>header r. setHeader header (obj_get hs header) r) ks r) = executing r \<and>
        http_method (fold (\<lambda>header r. setHeader header (obj_get hs header) r) ks r) = http_method r \<and>
        path (fold (\<lambda>header r. setHeader header (obj_get hs header) r) ks r) = path r \<and>
        query (fold (\<lambda>header r. setHeader header (obj_get hs header) r) ks r) = query r \<and>
        body (fold (\<lambda>header r. setHeader header (obj_get hs header) r) ks r) = body r \<and>
        client (fold (\<lambda>header r. setHeader header (obj_get hs header) r) ks r) = client r \<and>
        auth (fold (\<lambda>header r. setHeader header (obj_get hs header) r) ks r) = auth r \<and>
        flags (fold (\<lambda>header r. setHeader header (obj_get hs header) r) ks r) = flags r \<and>
        protocol (fold (\<lambda>header r. setHeader header (obj_get hs header) r) ks r) = protocol r \<and>
        host (fold (\<lambda>header r. setHeader header (obj_get hs header) r) ks r) = host r \<and>
        response (fold (\<lambda>header r. setHeader header (obj_get hs header) r) ks r) = response r" for ks
    by (induction ks arbitrary: r) (simp_all add: setHeader_fields)
  then show
    "dataPolicy (addHeaders hs r) = dataPolicy r"
    "executing (addHeaders hs r) = executing r"
    "http_method (addHeaders hs r) = http_method r"
    "path (addHeaders hs r) = path r"
    "query (addHeaders hs r) = query r"
    "body (addHeaders hs r) = body r"
    "client (addHeaders hs r) = client r"
    "auth (addHeaders hs r) = auth r"
    "flags (addHeaders hs r) = flags r"
    "protocol (addHeaders hs r) = protocol r"
    "host (addHeaders hs r) = host r"
    "response (addHeaders hs r) = response r"
    by (simp_all add: addHeaders_def)
qed

text \<open>The derived request of a branch, field by field.\<close>

lemma derivedRequest_Some:
  "\<exists>d. derivedRequest env m this (Some resp) pol = Inr d \<and>
       dataPolicy d = pol \<and> http_method d = m \<and> path d = path this \<and> query d = query this \<and>
       body d = data resp \<and> client d = client this \<and> auth d = auth this \<and>
       flags d = None \<and> protocol d = apiProtocol (client this) \<and> host d = apiHost (client this) \<and>
       \<not> executing d \<and> response d = None"
  by (simp add: derivedRequest_def response_data_def PrivateRequest_def method_setter_value
      addHeaders_fields Let_def)

lemma derivedRequest_None:
  "derivedRequest env m this None pol = Inl (TypeError ''Cannot read property data of undefined'')"
  by (simp add: derivedRequest_def response_data_def)


lemma set_method_fields:
  assumes "set_method v r = Inr r'"
  shows "dataPolicy r' = dataPolicy r" "path r' = path r" "query r' = query r" "body r' = body r"
    "client r' = client r" "auth r' = auth r" "executing r' = executing r"
  using assms by (auto simp: set_method_def split: sum.splits)

lemma set_method_value: "set_method (JStr (HttpMethod_value m)) r = Inr (r\<lparr>http_method := m\<rparr>)"
  by (simp add: set_method_def method_setter_value)

lemma set_method_PUT: "set_method (JStr ''PUT'') r = Inr (r\<lparr>http_method := PUT\<rparr>)"
  using set_method_value [of PUT r] by simp







subsection \<open>The branches of the two mixed policies\<close>

lemma executeLocal_eq:
  "cacheRack env this w = (out, w2) \<Longrightarrow>
   executeLocal env this w = (out, this, w2, [RackExecute CacheLayer this])"
  by (simp add: executeLocal_def)

lemma truthy_isSuccess_Some: "truthy_isSuccess (Some resp) = isSuccess resp"
  by (simp add: truthy_isSuccess_def)

lemma truthy_isSuccess_None: "truthy_isSuccess None = False"
  by (simp add: truthy_isSuccess_def)

lemma execute_derived_LocalOnly:
  assumes "\<not> executing d" and "dataPolicy d = LocalOnly"
  shows "steps (execute env d w) = [RackExecute CacheLayer (d\<lparr>executing := True\<rparr>)]"
    and "outcome (execute env d w) = fst (cacheRack env (d\<lparr>executing := True\<rparr>) w)"
    and "world_after (execute env d w) = snd (cacheRack env (d\<lparr>executing := True\<rparr>) w)"
  by (simp_all add: execute_LocalOnly [OF assms] settle_parts executeLocal_parts)

lemma LocalFirst_success_write:
  assumes "\<not> executing this" and "dataPolicy this = LocalFirst" and "http_method this \<noteq> GET"
    and "cacheRack env (this\<lparr>executing := True\<rparr>) w = (Inr (Some resp), w2)"
    and "isSuccess resp"
    and "derivedRequest env (http_method this) (this\<lparr>executing := True\<rparr>) (Some resp) CloudOnly = Inr d"
  shows "execute env this w =
     settle (then_return (Some resp) (this\<lparr>executing := True\<rparr>)
       [RackExecute CacheLayer (this\<lparr>executing := True\<rparr>)] (execute env d w2))"
  unfolding execute_LocalFirst [OF assms(1,2)] executeLocal_eq [OF assms(4)]
  using assms(3,5,6) by (simp add: truthy_isSuccess_Some)

lemma LocalFirst_failure_GET:
  assumes "\<not> executing this" and "dataPolicy this = LocalFirst" and "http_method this = GET"
    and "cacheRack env (this\<lparr>executing := True\<rparr>) w = (Inr (Some resp), w2)"
    and "\<not> isSuccess resp"
    and "derivedRequest env GET (this\<lparr>executing := True\<rparr>) (Some resp) CloudFirst = Inr d"
  shows "execute env this w =
     settle (return_promise (this\<lparr>executing := True\<rparr>)
       [RackExecute CacheLayer (this\<lparr>executing := True\<rparr>)] (execute env d w2))"
  unfolding execute_LocalFirst [OF assms(1,2)] executeLocal_eq [OF assms(4)]
  using assms(3,5,6) by (simp add: truthy_isSuccess_Some)

lemma LocalFirst_absent_GET:
  assumes "\<not> executing this" and "dataPolicy this = LocalFirst" and "http_method this = GET"
    and "cacheRack env (this\<lparr>executing := True\<rparr>) w = (Inr None, w2)"
  shows "outcome (execute env this w) = Inl (TypeError ''Cannot read property data of undefined'')"
  unfolding execute_LocalFirst [OF assms(1,2)] executeLocal_eq [OF assms(4)]
  using assms(3) by (simp add: truthy_isSuccess_None derivedRequest_None settle_parts)

lemma executeCloud_request_fields:
  assumes "executeCloud env this w = (out, this2, w2, t2)"
  shows "path this2 = path this" "query this2 = query this" "client this2 = client this"
    "auth this2 = auth this" "http_method this2 = http_method this" "body this2 = body this"
  using executeCloud_request [of env this w] assms by (auto simp: setHeader_fields)

lemma CloudFirst_success:
  assumes "\<not> executing this" and "dataPolicy this = CloudFirst"
    and "executeCloud env (this\<lparr>executing := True\<rparr>) w = (Inr (Some resp), this2, w2, t2)"
    and "isSuccess resp"
    and "derivedRequest env (http_method this) this2 (Some resp) LocalOnly = Inr d"
  shows "execute env this w =
     settle (then_return (Some resp) this2 t2
       (execute env (if http_method this = GET then d\<lparr>http_method := PUT\<rparr> else d) w2))"
  unfolding execute_CloudFirst [OF assms(1,2)] assms(3)
  using assms(4,5) by (simp add: truthy_isSuccess_Some set_method_PUT)

lemma CloudFirst_failure_GET:
  assumes "\<not> executing this" and "dataPolicy this = CloudFirst" and "http_method this = GET"
    and "executeCloud env (this\<lparr>executing := True\<rparr>) w = (Inr (Some resp), this2, w2, t2)"
    and "\<not> isSuccess resp"
    and "derivedRequest env GET this2 (Some resp) LocalOnly = Inr d"
  shows "execute env this w = settle (return_promise this2 t2 (execute env d w2))"
proof -
  have "http_method this2 = GET"
    using executeCloud_request_fields(5) [OF assms(4)] assms(3) by simp
  then show ?thesis
    unfolding execute_CloudFirst [OF assms(1,2)] assms(4)
    using assms(3,5,6) by (simp add: truthy_isSuccess_Some)
qed

subsection \<open>The network path\<close>

lemma authorization_verbatim:
  "username a = None \<Longrightarrow> credentials a = Some c \<Longrightarrow> authorization a = scheme a @ '' '' @ c"
  by (simp add: authorization_def template_def)

lemma authorization_basic:
  "username a = Some u \<Longrightarrow> password a = Some p \<Longrightarrow>
   authorization a = scheme a @ '' '' @ base64 (u @ '':'' @ p)"
  by (simp add: authorization_def template_def)

lemma resolve_auth_Credentials_isDefined:
  "resolve_auth a c w = (Inr (Credentials i), w1, t1) \<Longrightarrow> isDefined a"
  by (cases a rule: isDefined.cases) (simp_all add: resolve_auth_def)

lemma executeCloud_Credentials:
  assumes "resolve_auth (auth this) (client this) w = (Inr (Credentials a), w1, t1)"
  shows "executeCloud env this w =
     rack_execute_network env (setHeader ''Authorization'' (JStr (authorization a)) this) w1 t1"
  using assms resolve_auth_Credentials_isDefined [OF assms] by (simp add: executeCloud_def)

lemma executeCloud_AuthNull:
  assumes "resolve_auth (auth this) (client this) w = (Inr AuthNull, w1, t1)"
  shows "executeCloud env this w = rack_execute_network env this w1 t1"
proof (cases "isDefined (auth this)")
  case True
  with assms show ?thesis by (simp add: executeCloud_def)
next
  case False
  then have "auth this = AuthValue AuthUndefined \<or> auth this = AuthValue AuthNull"
    by (cases "auth this" rule: isDefined.cases) simp_all
  with assms have "w1 = w" "t1 = []"
    by (auto simp: resolve_auth_def)
  with False show ?thesis by (simp add: executeCloud_def)
qed

lemma executeCloud_rejected:
  assumes "resolve_auth (auth this) (client this) w = (Inl e, w1, t1)"
  shows "executeCloud env this w = (Inl e, this, w1, t1)"
proof -
  from assms have "isDefined (auth this)"
    by (cases "auth this" rule: isDefined.cases) (simp_all add: resolve_auth_def)
  with assms show ?thesis by (simp add: executeCloud_def)
qed

lemma rack_execute_network_eq:
  "rack_execute_network env q w t =
     (fst (networkRack env q w), q, snd (networkRack env q w), t @ [RackExecute NetworkLayer q])"
  by (simp add: rack_execute_network_def split: prod.splits)

lemma obj_get_setHeader_Authorization:
  "obj_get (headers (setHeader ''Authorization'' v this)) ''authorization'' = v"
  by (simp add: setHeader_Authorization obj_get_obj_set)

subsection \<open>The merged query mapping\<close>

lemma mergeProp_primitive: "isPrimitive v \<Longrightarrow> mergeProp x v = Some v"
  by (cases v) simp_all

lemma map_of_baseMerge_props:
  "distinct (map fst src) \<Longrightarrow>
   map_of (baseMerge_props obj src) k =
     (case map_of src k of None \<Rightarrow> map_of obj k | Some v \<Rightarrow> mergeProp (map_of obj k) v)"
proof (induction src arbitrary: obj)
  case Nil
  then show ?case by simp
next
  case (Cons kv src)
  obtain key sv where kv: "kv = (key, sv)" by (cases kv)
  from Cons.prems kv have dist: "distinct (map fst src)" and fresh: "map_of src key = None"
    by (auto simp: map_of_eq_None_iff)
  show ?case
  proof (cases "mergeProp (map_of obj key) sv")
    case None
    then have "sv = JUndefined" "map_of obj key = None"
      by (cases sv; simp)+
    with None kv fresh show ?thesis
      by (simp add: Cons.IH [OF dist])
  next
    case (Some v)
    with kv fresh show ?thesis
      by (auto simp: Cons.IH [OF dist] obj_set_def update_conv' split: option.splits)
  qed
qed

lemma url_query_of_unfold:
  "url_query_of this =
     baseMerge_props (merge [] [flags this]) (result_toJSON (query this))"
  by (simp add: url_query_of_def merge_def)

subsection \<open>Runs in the concrete setting\<close>

lemma example_LocalOnly_GET:
  "execute example_env (example_request GET p LocalOnly) n =
     (Inr (Some \<lparr>data = JObj [(''status'', JStr ''EntityNotFound''), (''echo'', JStr ''original'')],
                  isSuccess = False\<rparr>),
      (example_request GET p LocalOnly)
        \<lparr>response := Some \<lparr>data = JObj [(''status'', JStr ''EntityNotFound''), (''echo'', JStr ''original'')],
                             isSuccess = False\<rparr>\<rparr>,
      Suc n,
      [RackExecute CacheLayer ((example_request GET p LocalOnly)\<lparr>executing := True\<rparr>)])"
  by (simp add: execute_LocalOnly example_request_def executeLocal_def settle_def example_env_def
      example_cacheRack_def example_cache_response_def)

lemma example_LocalOnly_rejecting:
  "execute (example_env\<lparr>cacheRack := \<lambda>req n. (Inl (Rejection ''disk full''), n)\<rparr>)
     (example_request GET p LocalOnly) n =
     (Inl (Rejection ''disk full''), example_request GET p LocalOnly, n,
      [RackExecute CacheLayer ((example_request GET p LocalOnly)\<lparr>executing := True\<rparr>)])"
  by (simp add: execute_LocalOnly example_request_def executeLocal_def settle_def example_env_def)




lemma example_run_LocalOnly:
  assumes "\<not> executing d" and "dataPolicy d = LocalOnly"
  shows "outcome (execute example_env d n)
      = Inr (Some (example_cache_response (d\<lparr>executing := True\<rparr>)))"
    and "world_after (execute example_env d n) = Suc n"
  by (simp_all add: execute_derived_LocalOnly [OF assms] example_env_def example_cacheRack_def)

lemma example_executeCloud:
  assumes "auth this = AuthFunction (\<lambda>c n. (Inr AuthNull, n))"
  shows "executeCloud example_env this n =
     (Inr (Some (example_network_response this)), this, Suc n,
      [AuthInvoke (client this), RackExecute NetworkLayer this])"
  by (simp add: executeCloud_def assms resolve_auth_def rack_execute_network_def example_env_def
      example_networkRack_def)

lemma example_run_CloudOnly:
  assumes "\<not> executing d" and "dataPolicy d = CloudOnly"
    and "auth d = AuthFunction (\<lambda>c n. (Inr AuthNull, n))"
  shows "outcome (execute example_env d n)
      = Inr (Some (example_network_response (d\<lparr>executing := True\<rparr>)))"
    and "world_after (execute example_env d n) = Suc n"
    and "steps (execute example_env d n)
      = [AuthInvoke (client d), RackExecute NetworkLayer (d\<lparr>executing := True\<rparr>)]"
  using assms(3)
  by (simp_all add: execute_CloudOnly [OF assms(1,2)] settle_parts example_executeCloud)

lemma example_run_CloudFirst:
  assumes "\<not> executing d" and "dataPolicy d = CloudFirst"
    and "auth d = AuthFunction (\<lambda>c n. (Inr AuthNull, n))" and "path d \<noteq> ''/down''"
  shows "outcome (execute example_env d n)
      = Inr (Some (example_network_response (d\<lparr>executing := True\<rparr>)))"
proof -
  let ?d1 = "d\<lparr>executing := True\<rparr>"
  let ?resp = "example_network_response ?d1"
  have c: "executeCloud example_env ?d1 n =
      (Inr (Some ?resp), ?d1, Suc n, [AuthInvoke (client ?d1), RackExecute NetworkLayer ?d1])"
    using assms(3) by (simp add: example_executeCloud)
  have s: "isSuccess ?resp"
    using assms(4) by (simp add: example_network_response_def)
  from derivedRequest_Some [of example_env "http_method d" ?d1 ?resp LocalOnly]
  obtain d0 where d0: "derivedRequest example_env (http_method d) ?d1 (Some ?resp) LocalOnly = Inr d0"
    "dataPolicy d0 = LocalOnly" "\<not> executing d0"
    by blast
  define m where "m = (if http_method d = GET then d0\<lparr>http_method := PUT\<rparr> else d0)"
  have m: "\<not> executing m" "dataPolicy m = LocalOnly"
    using d0 by (simp_all add: m_def)
  show ?thesis
    unfolding CloudFirst_success [OF assms(1,2) c s d0(1)] settle_parts then_return_parts
    using example_run_LocalOnly(1) [OF m] by (simp add: m_def)
qed

lemma example_request_fields:
  "\<not> executing (example_request m p pol)"
  "dataPolicy (example_request m p pol) = pol"
  "http_method (example_request m p pol) = m"
  "path (example_request m p pol) = p"
  "body (example_request m p pol) = JStr ''original''"
  "auth (example_request m p pol) = AuthFunction (\<lambda>c n. (Inr AuthNull, n))"
  "client (example_request m p pol) = example_client"
  "query (example_request m p pol) = None"
  by (simp_all add: example_request_def)

lemma claimed_fallback_example:
  "claimed_fallback example_env (example_request m p pol) pol' = Inr (example_request m p pol')"
  unfolding claimed_fallback_def example_request_fields
  using PrivateRequest_example [of m p pol', unfolded example_options_def]
  by (simp add: example_request_def)

lemma example_run_LocalFirst_GET:
  assumes "p \<noteq> ''/down''"
  shows "outcome (execute example_env (example_request GET p LocalFirst) n)
      = Inr (Some \<lparr>data = JObj [(''status'', JStr ''ok''),
                                 (''echo'', JObj [(''status'', JStr ''EntityNotFound''),
                                                  (''echo'', JStr ''original'')])],
                    isSuccess = True\<rparr>)"
proof -
  let ?r = "example_request GET p LocalFirst"
  let ?r1 = "?r\<lparr>executing := True\<rparr>"
  let ?resp = "\<lparr>data = JObj [(''status'', JStr ''EntityNotFound''), (''echo'', JStr ''original'')],
                isSuccess = False\<rparr>"
  have h: "\<not> executing ?r" "dataPolicy ?r = LocalFirst" "http_method ?r = GET"
    "cacheRack example_env ?r1 n = (Inr (Some ?resp), Suc n)" "\<not> isSuccess ?resp"
    by (simp_all add: example_request_fields example_env_def example_cacheRack_def
        example_cache_response_def)
  from derivedRequest_Some [of example_env GET ?r1 ?resp CloudFirst]
  obtain d where d: "derivedRequest example_env GET ?r1 (Some ?resp) CloudFirst = Inr d"
    "dataPolicy d = CloudFirst" "path d = path ?r1" "body d = data ?resp" "auth d = auth ?r1"
    "\<not> executing d"
    by blast
  have a: "auth d = AuthFunction (\<lambda>c n. (Inr AuthNull, n))" "path d \<noteq> ''/down''"
    using d(3,5) assms by (simp_all add: example_request_fields)
  show ?thesis
    unfolding LocalFirst_failure_GET [OF h d(1)] settle_parts return_promise_parts
      example_run_CloudFirst [OF d(6,2) a]
    using a(2) d(4) by (simp add: example_network_response_def)
qed

lemma example_run_CloudFirst_GET_down:
  "outcome (execute example_env (example_request GET ''/down'' CloudFirst) n)
      = Inr (Some \<lparr>data = JObj [(''status'', JStr ''EntityNotFound''),
                                 (''echo'', JObj [(''status'', JStr ''ServiceUnavailable''),
                                                  (''echo'', JStr ''original'')])],
                    isSuccess = False\<rparr>)"
proof -
  let ?r = "example_request GET ''/down'' CloudFirst"
  let ?r1 = "?r\<lparr>executing := True\<rparr>"
  let ?resp = "\<lparr>data = JObj [(''status'', JStr ''ServiceUnavailable''), (''echo'', JStr ''original'')],
                isSuccess = False\<rparr>"
  have h: "\<not> executing ?r" "dataPolicy ?r = CloudFirst" "http_method ?r = GET"
    "executeCloud example_env ?r1 n
       = (Inr (Some ?resp), ?r1, Suc n, [AuthInvoke (client ?r1), RackExecute NetworkLayer ?r1])"
    "\<not> isSuccess ?resp"
    by (simp_all add: example_request_fields example_executeCloud example_network_response_def)
  from derivedRequest_Some [of example_env GET ?r1 ?resp LocalOnly]
  obtain d where d: "derivedRequest example_env GET ?r1 (Some ?resp) LocalOnly = Inr d"
    "dataPolicy d = LocalOnly" "http_method d = GET" "body d = data ?resp" "\<not> executing d"
    by blast
  show ?thesis
    unfolding CloudFirst_failure_GET [OF h d(1)] settle_parts return_promise_parts
      example_run_LocalOnly(1) [OF d(5,2)]
    using d(3,4) by (simp add: example_cache_response_def)
qed

lemma base64_example: "base64 ''kid:secret'' = ''a2lkOnNlY3JldA==''"
  by code_simp

lemma example_merged:
  "merge [] [Some example_flags, Some (toJSON example_query)] =
     [(''sort'', JObj [(''name'', JNum 1), (''age'', JNum 1)]), (''limit'', JNum 10),
      (''skip'', JNum 0)]"
  by (simp add: merge_def example_flags_def example_query_def obj_set_def)

lemma rejecting_env_racks:
  "cacheRack cache_rejecting_env = (\<lambda>req n. (Inl (Rejection ''disk full''), n))"
  "networkRack cache_rejecting_env = example_networkRack"
  "cacheRack network_rejecting_env = example_cacheRack"
  "networkRack network_rejecting_env = (\<lambda>req n. (Inl (Rejection ''offline''), n))"
  by (simp_all add: cache_rejecting_env_def network_rejecting_env_def example_env_def)

lemma example_run_mirror_cache_rejects:
  "executeCloud cache_rejecting_env ((example_request GET ''/books'' CloudFirst)\<lparr>executing := True\<rparr>) 0
     = (Inr (Some \<lparr>data = JObj [(''status'', JStr ''ok''), (''echo'', JStr ''original'')],
                   isSuccess = True\<rparr>),
        (example_request GET ''/books'' CloudFirst)\<lparr>executing := True\<rparr>, 1,
        [AuthInvoke example_client,
         RackExecute NetworkLayer ((example_request GET ''/books'' CloudFirst)\<lparr>executing := True\<rparr>)])"
  "outcome (execute cache_rejecting_env (example_request GET ''/books'' CloudFirst) 0)
     = Inl (Rejection ''disk full'')"
proof -
  let ?r = "example_request GET ''/books'' CloudFirst"
  let ?r1 = "?r\<lparr>executing := True\<rparr>"
  let ?resp = "\<lparr>data = JObj [(''status'', JStr ''ok''), (''echo'', JStr ''original'')],
                isSuccess = True\<rparr>"
  show c: "executeCloud cache_rejecting_env ?r1 0
     = (Inr (Some ?resp), ?r1, 1, [AuthInvoke example_client, RackExecute NetworkLayer ?r1])"
    by (simp add: executeCloud_def example_request_fields resolve_auth_def
        rack_execute_network_def rejecting_env_racks example_networkRack_def
        example_network_response_def)
  have h: "\<not> executing ?r" "dataPolicy ?r = CloudFirst" and s: "isSuccess ?resp"
    by (simp_all add: example_request_fields)
  from derivedRequest_Some [of cache_rejecting_env "http_method ?r" ?r1 ?resp LocalOnly]
  obtain d0 where d0:
    "derivedRequest cache_rejecting_env (http_method ?r) ?r1 (Some ?resp) LocalOnly = Inr d0"
    "dataPolicy d0 = LocalOnly" "\<not> executing d0"
    by blast
  define m where "m = (if http_method ?r = GET then d0\<lparr>http_method := PUT\<rparr> else d0)"
  have m: "\<not> executing m" "dataPolicy m = LocalOnly"
    using d0 by (simp_all add: m_def)
  show "outcome (execute cache_rejecting_env ?r 0) = Inl (Rejection ''disk full'')"
    unfolding CloudFirst_success [OF h c s d0(1)] settle_parts then_return_parts
    using execute_derived_LocalOnly(2) [OF m, of cache_rejecting_env 1]
    by (simp add: m_def rejecting_env_racks)
qed

lemma example_run_mirror_network_rejects:
  "cacheRack network_rejecting_env ((example_request PUT ''/books'' LocalFirst)\<lparr>executing := True\<rparr>) 0
     = (Inr (Some \<lparr>data = JObj [(''status'', JStr ''stored''), (''echo'', JStr ''original'')],
                   isSuccess = True\<rparr>), 1)"
  "outcome (execute network_rejecting_env (example_request PUT ''/books'' LocalFirst) 0)
     = Inl (Rejection ''offline'')"
proof -
  let ?r = "example_request PUT ''/books'' LocalFirst"
  let ?r1 = "?r\<lparr>executing := True\<rparr>"
  let ?resp = "\<lparr>data = JObj [(''status'', JStr ''stored''), (''echo'', JStr ''original'')],
                isSuccess = True\<rparr>"
  show c: "cacheRack network_rejecting_env ?r1 0 = (Inr (Some ?resp), 1)"
    by (simp add: rejecting_env_racks example_cacheRack_def example_cache_response_def
        example_request_fields)
  have h: "\<not> executing ?r" "dataPolicy ?r = LocalFirst" "http_method ?r \<noteq> GET"
    and s: "isSuccess ?resp"
    by (simp_all add: example_request_fields)
  from derivedRequest_Some [of network_rejecting_env "http_method ?r" ?r1 ?resp CloudOnly]
  obtain d where d:
    "derivedRequest network_rejecting_env (http_method ?r) ?r1 (Some ?resp) CloudOnly = Inr d"
    "dataPolicy d = CloudOnly" "auth d = auth ?r1" "\<not> executing d"
    by blast
  have a: "auth (d\<lparr>executing := True\<rparr>) = AuthFunction (\<lambda>c n. (Inr AuthNull, n))"
    using d(3) by (simp add: example_request_fields)
  have "outcome (executeCloud network_rejecting_env (d\<lparr>executing := True\<rparr>) 1)
      = Inl (Rejection ''offline'')"
    by (simp add: executeCloud_def a resolve_auth_def rack_execute_network_def
        rejecting_env_racks)
  then show "outcome (execute network_rejecting_env ?r 0) = Inl (Rejection ''offline'')"
    unfolding LocalFirst_success_write [OF h c s d(1)] settle_parts then_return_parts
      execute_CloudOnly [OF d(4,2)]
    by simp
qed

section \<open>Claims\<close>

text \<open>
  Claim C1, as amended. For a request with policy LocalFirst and method GET that is not
  already executing, when the cache rack resolves with a Response that is a failure,
  \<^verbatim>\<open>execute\<close> builds a derived request with policy CloudFirst, the same method, path, query,
  client and auth, and the data of the cache Response as its body; it executes that request
  on the world the cache left, and the call settles as that execution does.
\<close>

theorem localFirst_read_falls_through:
  assumes "\<not> executing this" and "dataPolicy this = LocalFirst" and "http_method this = GET"
    and "cacheRack env (this\<lparr>executing := True\<rparr>) w = (Inr (Some resp), w2)"
    and "\<not> isSuccess resp"
  shows "\<exists>d. derivedRequest env GET (this\<lparr>executing := True\<rparr>) (Some resp) CloudFirst = Inr d
      \<and> dataPolicy d = CloudFirst \<and> http_method d = GET \<and> path d = path this
      \<and> query d = query this \<and> body d = data resp \<and> client d = client this
      \<and> auth d = auth this \<and> \<not> executing d
      \<and> steps (execute env this w)
          = RackExecute CacheLayer (this\<lparr>executing := True\<rparr>) # steps (execute env d w2)
      \<and> world_after (execute env this w) = world_after (execute env d w2)
      \<and> outcome (execute env this w) = outcome (execute env d w2)"
proof -
  let ?this1 = "this\<lparr>executing := True\<rparr>"
  from derivedRequest_Some [of env GET ?this1 resp CloudFirst]
  obtain d where d: "derivedRequest env GET ?this1 (Some resp) CloudFirst = Inr d"
    "dataPolicy d = CloudFirst" "http_method d = GET" "path d = path ?this1"
    "query d = query ?this1" "body d = data resp" "client d = client ?this1"
    "auth d = auth ?this1" "\<not> executing d"
    by blast
  show ?thesis
    apply (intro exI [of _ d])
    unfolding LocalFirst_failure_GET [OF assms d(1)] settle_parts return_promise_parts
    using d by simp
qed

theorem localFirst_read_falls_through_witness:
  "\<not> executing (example_request GET ''/books'' LocalFirst)
   \<and> dataPolicy (example_request GET ''/books'' LocalFirst) = LocalFirst
   \<and> http_method (example_request GET ''/books'' LocalFirst) = GET
   \<and> cacheRack example_env ((example_request GET ''/books'' LocalFirst)\<lparr>executing := True\<rparr>) 0
       = (Inr (Some \<lparr>data = JObj [(''status'', JStr ''EntityNotFound''),
                                   (''echo'', JStr ''original'')],
                     isSuccess = False\<rparr>), 1)
   \<and> outcome (execute example_env (example_request GET ''/books'' LocalFirst) 0)
       = Inr (Some \<lparr>data = JObj [(''status'', JStr ''ok''),
                                  (''echo'', JObj [(''status'', JStr ''EntityNotFound''),
                                                   (''echo'', JStr ''original'')])],
                     isSuccess = True\<rparr>)"
proof -
  let ?r = "example_request GET ''/books'' LocalFirst"
  let ?resp = "\<lparr>data = JObj [(''status'', JStr ''EntityNotFound''), (''echo'', JStr ''original'')],
                isSuccess = False\<rparr>"
  have h: "\<not> executing ?r" "dataPolicy ?r = LocalFirst" "http_method ?r = GET"
    "cacheRack example_env (?r\<lparr>executing := True\<rparr>) 0 = (Inr (Some ?resp), 1)"
    "\<not> isSuccess ?resp"
    by (simp_all add: example_request_fields example_env_def example_cacheRack_def
        example_cache_response_def)
  from localFirst_read_falls_through [OF h] obtain d where
    d: "dataPolicy d = CloudFirst" "path d = path ?r" "body d = data ?resp" "auth d = auth ?r"
    "\<not> executing d"
    "outcome (execute example_env ?r 0) = outcome (execute example_env d 1)"
    by blast
  have a: "auth d = AuthFunction (\<lambda>c n. (Inr AuthNull, n))" "path d \<noteq> ''/down''"
    using d(2,4) by (simp_all add: example_request_fields)
  from d(3,6) example_run_CloudFirst [OF d(5,1) a, of 1] a(2) h show ?thesis
    by (simp add: example_network_response_def)
qed

text \<open>
  Claim C1 as the specification states it gives the derived request the body of the original.
  In the concrete setting the racks answer with the body they were sent, and the call does
  not resolve to what executing that request would give: the request that reaches the
  network carries the data of the failed cache Response.
\<close>

theorem localFirst_fallback_body_counterexample:
  "\<not> executing (example_request GET ''/books'' LocalFirst)
   \<and> dataPolicy (example_request GET ''/books'' LocalFirst) = LocalFirst
   \<and> http_method (example_request GET ''/books'' LocalFirst) = GET
   \<and> cacheRack example_env ((example_request GET ''/books'' LocalFirst)\<lparr>executing := True\<rparr>) 0
       = (Inr (Some \<lparr>data = JObj [(''status'', JStr ''EntityNotFound''),
                                   (''echo'', JStr ''original'')],
                     isSuccess = False\<rparr>), 1)
   \<and> claimed_fallback example_env (example_request GET ''/books'' LocalFirst) CloudFirst
       = Inr (example_request GET ''/books'' CloudFirst)
   \<and> outcome (execute example_env (example_request GET ''/books'' LocalFirst) 0)
       \<noteq> outcome (execute example_env (example_request GET ''/books'' CloudFirst) 1)"
proof -
  have c: "cacheRack example_env ((example_request GET ''/books'' LocalFirst)\<lparr>executing := True\<rparr>) 0
       = (Inr (Some \<lparr>data = JObj [(''status'', JStr ''EntityNotFound''),
                                   (''echo'', JStr ''original'')],
                     isSuccess = False\<rparr>), 1)"
    by (simp add: example_request_fields example_env_def example_cacheRack_def
        example_cache_response_def)
  have o: "outcome (execute example_env (example_request GET ''/books'' LocalFirst) 0)
       \<noteq> outcome (execute example_env (example_request GET ''/books'' CloudFirst) 1)"
    by (simp add: example_run_LocalFirst_GET example_run_CloudFirst example_request_fields
        example_network_response_def)
  from c o show ?thesis
    by (simp add: example_request_fields claimed_fallback_example)
qed

text \<open>
  Claim C2, as amended. For a request with policy CloudFirst and method GET that is not
  already executing, when the network path resolves with a Response that is a failure,
  \<^verbatim>\<open>execute\<close> builds a derived request with policy LocalOnly, the same method, path, query,
  client and auth, and the data of the network Response as its body; it executes that request
  against the cache, and the call settles as that execution does.
\<close>

theorem cloudFirst_read_falls_back:
  assumes "\<not> executing this" and "dataPolicy this = CloudFirst" and "http_method this = GET"
    and "executeCloud env (this\<lparr>executing := True\<rparr>) w = (Inr (Some resp), this2, w2, t2)"
    and "\<not> isSuccess resp"
  shows "\<exists>d. derivedRequest env GET this2 (Some resp) LocalOnly = Inr d
      \<and> dataPolicy d = LocalOnly \<and> http_method d = GET \<and> path d = path this
      \<and> query d = query this \<and> body d = data resp \<and> client d = client this
      \<and> auth d = auth this \<and> \<not> executing d
      \<and> steps (execute env this w) = t2 @ [RackExecute CacheLayer (d\<lparr>executing := True\<rparr>)]
      \<and> world_after (execute env this w) = world_after (execute env d w2)
      \<and> outcome (execute env this w) = outcome (execute env d w2)"
proof -
  note f = executeCloud_request_fields [OF assms(4)]
  from derivedRequest_Some [of env GET this2 resp LocalOnly]
  obtain d where d: "derivedRequest env GET this2 (Some resp) LocalOnly = Inr d"
    "dataPolicy d = LocalOnly" "http_method d = GET" "path d = path this2"
    "query d = query this2" "body d = data resp" "client d = client this2"
    "auth d = auth this2" "\<not> executing d"
    by blast
  show ?thesis
    apply (intro exI [of _ d])
    unfolding CloudFirst_failure_GET [OF assms d(1)] settle_parts return_promise_parts
      execute_derived_LocalOnly(1) [OF d(9,2)]
    using d f by simp
qed

theorem cloudFirst_read_falls_back_witness:
  "\<not> executing (example_request GET ''/down'' CloudFirst)
   \<and> dataPolicy (example_request GET ''/down'' CloudFirst) = CloudFirst
   \<and> http_method (example_request GET ''/down'' CloudFirst) = GET
   \<and> executeCloud example_env ((example_request GET ''/down'' CloudFirst)\<lparr>executing := True\<rparr>) 0
       = (Inr (Some \<lparr>data = JObj [(''status'', JStr ''ServiceUnavailable''),
                                   (''echo'', JStr ''original'')],
                     isSuccess = False\<rparr>),
          (example_request GET ''/down'' CloudFirst)\<lparr>executing := True\<rparr>, 1,
          [AuthInvoke example_client,
           RackExecute NetworkLayer ((example_request GET ''/down'' CloudFirst)\<lparr>executing := True\<rparr>)])
   \<and> outcome (execute example_env (example_request GET ''/down'' CloudFirst) 0)
       = Inr (Some \<lparr>data = JObj [(''status'', JStr ''EntityNotFound''),
                                  (''echo'', JObj [(''status'', JStr ''ServiceUnavailable''),
                                                   (''echo'', JStr ''original'')])],
                     isSuccess = False\<rparr>)"
proof -
  let ?r = "example_request GET ''/down'' CloudFirst"
  let ?resp = "\<lparr>data = JObj [(''status'', JStr ''ServiceUnavailable''), (''echo'', JStr ''original'')],
                isSuccess = False\<rparr>"
  have h: "\<not> executing ?r" "dataPolicy ?r = CloudFirst" "http_method ?r = GET"
    "executeCloud example_env (?r\<lparr>executing := True\<rparr>) 0
       = (Inr (Some ?resp), ?r\<lparr>executing := True\<rparr>, 1,
          [AuthInvoke example_client, RackExecute NetworkLayer (?r\<lparr>executing := True\<rparr>)])"
    "\<not> isSuccess ?resp"
    by (simp_all add: example_request_fields example_executeCloud example_network_response_def)
  from cloudFirst_read_falls_back [OF h] obtain d where
    d: "dataPolicy d = LocalOnly" "http_method d = GET" "body d = data ?resp" "\<not> executing d"
    "outcome (execute example_env ?r 0) = outcome (execute example_env d 1)"
    by blast
  from d(2,3,5) example_run_LocalOnly(1) [OF d(4,1), of 1] h show ?thesis
    by (simp add: example_cache_response_def)
qed

text \<open>
  Claim C2 as the specification states it gives the derived request the body of the original.
  In the concrete setting the call does not resolve to what executing that request would
  give: the request that reaches the cache carries the data of the failed network Response.
\<close>

theorem cloudFirst_fallback_body_counterexample:
  "\<not> executing (example_request GET ''/down'' CloudFirst)
   \<and> dataPolicy (example_request GET ''/down'' CloudFirst) = CloudFirst
   \<and> http_method (example_request GET ''/down'' CloudFirst) = GET
   \<and> executeCloud example_env ((example_request GET ''/down'' CloudFirst)\<lparr>executing := True\<rparr>) 0
       = (Inr (Some \<lparr>data = JObj [(''status'', JStr ''ServiceUnavailable''),
                                   (''echo'', JStr ''original'')],
                     isSuccess = False\<rparr>),
          (example_request GET ''/down'' CloudFirst)\<lparr>executing := True\<rparr>, 1,
          [AuthInvoke example_client,
           RackExecute NetworkLayer ((example_request GET ''/down'' CloudFirst)\<lparr>executing := True\<rparr>)])
   \<and> claimed_fallback example_env (example_request GET ''/down'' CloudFirst) LocalOnly
       = Inr (example_request GET ''/down'' LocalOnly)
   \<and> outcome (execute example_env (example_request GET ''/down'' CloudFirst) 0)
       \<noteq> outcome (execute example_env (example_request GET ''/down'' LocalOnly) 1)"
  by (simp add: example_request_fields example_executeCloud example_network_response_def
      claimed_fallback_example example_run_CloudFirst_GET_down example_run_LocalOnly
      example_cache_response_def)

text \<open>
  Claim C3, as amended. For a request with policy CloudFirst that is not already executing,
  when the network path resolves with a Response that is a success, \<^verbatim>\<open>execute\<close> builds a
  derived request with policy LocalOnly, the same path and query, the data of the network
  Response as its body, and the method PUT when the original method is GET and the original
  method otherwise. It hands that request to the cache rack and waits for it; when the mirror call
  resolves, whatever its Response, the call resolves to the network Response, and when the
  mirror call rejects, the call rejects with its error.
\<close>

theorem cloudFirst_success_mirrored:
  assumes "\<not> executing this" and "dataPolicy this = CloudFirst"
    and "executeCloud env (this\<lparr>executing := True\<rparr>) w = (Inr (Some resp), this2, w2, t2)"
    and "isSuccess resp"
  shows "\<exists>d0 d. derivedRequest env (http_method this) this2 (Some resp) LocalOnly = Inr d0
      \<and> d = (if http_method this = GET then d0\<lparr>http_method := PUT\<rparr> else d0)
      \<and> dataPolicy d = LocalOnly
      \<and> http_method d = (if http_method this = GET then PUT else http_method this)
      \<and> path d = path this \<and> query d = query this \<and> body d = data resp
      \<and> client d = client this \<and> auth d = auth this \<and> \<not> executing d
      \<and> steps (execute env this w) = t2 @ [RackExecute CacheLayer (d\<lparr>executing := True\<rparr>)]
      \<and> world_after (execute env this w) = world_after (execute env d w2)
      \<and> (\<forall>x. outcome (execute env d w2) = Inr x \<longrightarrow> outcome (execute env this w) = Inr (Some resp))
      \<and> (\<forall>e. outcome (execute env d w2) = Inl e \<longrightarrow> outcome (execute env this w) = Inl e)"
proof -
  let ?this1 = "this\<lparr>executing := True\<rparr>"
  note f = executeCloud_request_fields [OF assms(3)]
  from derivedRequest_Some [of env "http_method this" this2 resp LocalOnly]
  obtain d0 where d0: "derivedRequest env (http_method this) this2 (Some resp) LocalOnly = Inr d0"
    "dataPolicy d0 = LocalOnly" "http_method d0 = http_method this" "path d0 = path this2"
    "query d0 = query this2" "body d0 = data resp" "client d0 = client this2"
    "auth d0 = auth this2" "\<not> executing d0"
    by blast
  define d where "d = (if http_method this = GET then d0\<lparr>http_method := PUT\<rparr> else d0)"
  have d: "dataPolicy d = LocalOnly" "\<not> executing d"
    using d0 by (simp_all add: d_def)
  have e: "execute env this w = settle (then_return (Some resp) this2 t2 (execute env d w2))"
    unfolding d_def by (rule CloudFirst_success [OF assms d0(1)])
  show ?thesis
    apply (rule exI [of _ d0], rule exI [of _ d])
    unfolding e settle_parts then_return_parts execute_derived_LocalOnly(1) [OF d(2,1)]
    using d0 f by (auto simp: d_def split: sum.splits)
qed

theorem cloudFirst_success_mirrored_witness:
  "\<not> executing (example_request GET ''/books'' CloudFirst)
   \<and> dataPolicy (example_request GET ''/books'' CloudFirst) = CloudFirst
   \<and> executeCloud example_env ((example_request GET ''/books'' CloudFirst)\<lparr>executing := True\<rparr>) 0
       = (Inr (Some \<lparr>data = JObj [(''status'', JStr ''ok''), (''echo'', JStr ''original'')],
                     isSuccess = True\<rparr>),
          (example_request GET ''/books'' CloudFirst)\<lparr>executing := True\<rparr>, 1,
          [AuthInvoke example_client,
           RackExecute NetworkLayer ((example_request GET ''/books'' CloudFirst)\<lparr>executing := True\<rparr>)])
   \<and> outcome (execute example_env (example_request GET ''/books'' CloudFirst) 0)
       = Inr (Some \<lparr>data = JObj [(''status'', JStr ''ok''), (''echo'', JStr ''original'')],
                     isSuccess = True\<rparr>)
   \<and> world_after (execute example_env (example_request GET ''/books'' CloudFirst) 0) = 2"
proof -
  let ?r = "example_request GET ''/books'' CloudFirst"
  let ?resp = "\<lparr>data = JObj [(''status'', JStr ''ok''), (''echo'', JStr ''original'')],
                isSuccess = True\<rparr>"
  have h: "\<not> executing ?r" "dataPolicy ?r = CloudFirst"
    "executeCloud example_env (?r\<lparr>executing := True\<rparr>) 0
       = (Inr (Some ?resp), ?r\<lparr>executing := True\<rparr>, 1,
          [AuthInvoke example_client, RackExecute NetworkLayer (?r\<lparr>executing := True\<rparr>)])"
    "isSuccess ?resp"
    by (simp_all add: example_request_fields example_executeCloud example_network_response_def)
  from cloudFirst_success_mirrored [OF h] obtain d where
    d: "dataPolicy d = LocalOnly" "\<not> executing d"
    "world_after (execute example_env ?r 0) = world_after (execute example_env d 1)"
    "\<forall>x. outcome (execute example_env d 1) = Inr x \<longrightarrow>
         outcome (execute example_env ?r 0) = Inr (Some ?resp)"
    by blast
  from d(3,4) example_run_LocalOnly [OF d(2,1), of 1] h show ?thesis
    by simp
qed

text \<open>
  Claim C3 as the specification states it resolves the call to the network Response in every
  case. With a cache rack whose promise rejects, the mirror call rejects and so does the call,
  with the rack's error, although the network Response was a success.
\<close>

theorem cloudFirst_mirror_rejects_counterexample:
  "\<not> executing (example_request GET ''/books'' CloudFirst)
   \<and> dataPolicy (example_request GET ''/books'' CloudFirst) = CloudFirst
   \<and> executeCloud cache_rejecting_env
        ((example_request GET ''/books'' CloudFirst)\<lparr>executing := True\<rparr>) 0
       = (Inr (Some \<lparr>data = JObj [(''status'', JStr ''ok''), (''echo'', JStr ''original'')],
                     isSuccess = True\<rparr>),
          (example_request GET ''/books'' CloudFirst)\<lparr>executing := True\<rparr>, 1,
          [AuthInvoke example_client,
           RackExecute NetworkLayer ((example_request GET ''/books'' CloudFirst)\<lparr>executing := True\<rparr>)])
   \<and> outcome (execute cache_rejecting_env (example_request GET ''/books'' CloudFirst) 0)
       = Inl (Rejection ''disk full'')
   \<and> outcome (execute cache_rejecting_env (example_request GET ''/books'' CloudFirst) 0)
       \<noteq> Inr (Some \<lparr>data = JObj [(''status'', JStr ''ok''), (''echo'', JStr ''original'')],
                       isSuccess = True\<rparr>)"
  by (simp add: example_run_mirror_cache_rejects example_request_fields)

text \<open>
  Claim C4, as amended. For a request with policy LocalFirst whose method is not GET and that
  is not already executing, when the cache rack resolves with a Response that is a success,
  \<^verbatim>\<open>execute\<close> builds a derived request with policy CloudOnly, the same method, path and
  query, and the data of the cache Response as its body. It executes that request and waits
  for it; when the mirror call resolves, whatever its Response, the call resolves to the cache
  Response, and when the mirror call rejects, the call rejects with its error.
\<close>

theorem localFirst_write_mirrored:
  assumes "\<not> executing this" and "dataPolicy this = LocalFirst" and "http_method this \<noteq> GET"
    and "cacheRack env (this\<lparr>executing := True\<rparr>) w = (Inr (Some resp), w2)"
    and "isSuccess resp"
  shows "\<exists>d. derivedRequest env (http_method this) (this\<lparr>executing := True\<rparr>) (Some resp) CloudOnly = Inr d
      \<and> dataPolicy d = CloudOnly \<and> http_method d = http_method this \<and> path d = path this
      \<and> query d = query this \<and> body d = data resp \<and> client d = client this
      \<and> auth d = auth this \<and> \<not> executing d
      \<and> steps (execute env this w)
          = RackExecute CacheLayer (this\<lparr>executing := True\<rparr>) # steps (execute env d w2)
      \<and> world_after (execute env this w) = world_after (execute env d w2)
      \<and> (\<forall>x. outcome (execute env d w2) = Inr x \<longrightarrow> outcome (execute env this w) = Inr (Some resp))
      \<and> (\<forall>e. outcome (execute env d w2) = Inl e \<longrightarrow> outcome (execute env this w) = Inl e)"
proof -
  let ?this1 = "this\<lparr>executing := True\<rparr>"
  from derivedRequest_Some [of env "http_method this" ?this1 resp CloudOnly]
  obtain d where d: "derivedRequest env (http_method this) ?this1 (Some resp) CloudOnly = Inr d"
    "dataPolicy d = CloudOnly" "http_method d = http_method this" "path d = path ?this1"
    "query d = query ?this1" "body d = data resp" "client d = client ?this1"
    "auth d = auth ?this1" "\<not> executing d"
    by blast
  show ?thesis
    using d unfolding LocalFirst_success_write [OF assms d(1)] settle_parts then_return_parts
    by (intro exI [of _ d]) (auto split: sum.splits)
qed

theorem localFirst_write_mirrored_witness:
  "\<not> executing (example_request PUT ''/books'' LocalFirst)
   \<and> dataPolicy (example_request PUT ''/books'' LocalFirst) = LocalFirst
   \<and> http_method (example_request PUT ''/books'' LocalFirst) \<noteq> GET
   \<and> cacheRack example_env ((example_request PUT ''/books'' LocalFirst)\<lparr>executing := True\<rparr>) 0
       = (Inr (Some \<lparr>data = JObj [(''status'', JStr ''stored''), (''echo'', JStr ''original'')],
                     isSuccess = True\<rparr>), 1)
   \<and> outcome (execute example_env (example_request PUT ''/books'' LocalFirst) 0)
       = Inr (Some \<lparr>data = JObj [(''status'', JStr ''stored''), (''echo'', JStr ''original'')],
                     isSuccess = True\<rparr>)
   \<and> world_after (execute example_env (example_request PUT ''/books'' LocalFirst) 0) = 2"
proof -
  let ?r = "example_request PUT ''/books'' LocalFirst"
  let ?resp = "\<lparr>data = JObj [(''status'', JStr ''stored''), (''echo'', JStr ''original'')],
                isSuccess = True\<rparr>"
  have h: "\<not> executing ?r" "dataPolicy ?r = LocalFirst" "http_method ?r \<noteq> GET"
    "cacheRack example_env (?r\<lparr>executing := True\<rparr>) 0 = (Inr (Some ?resp), 1)" "isSuccess ?resp"
    by (simp_all add: example_request_fields example_env_def example_cacheRack_def
        example_cache_response_def)
  from localFirst_write_mirrored [OF h] obtain d where
    d: "dataPolicy d = CloudOnly" "auth d = auth ?r" "\<not> executing d"
    "world_after (execute example_env ?r 0) = world_after (execute example_env d 1)"
    "\<forall>x. outcome (execute example_env d 1) = Inr x \<longrightarrow>
         outcome (execute example_env ?r 0) = Inr (Some ?resp)"
    by blast
  have a: "auth d = AuthFunction (\<lambda>c n. (Inr AuthNull, n))"
    using d(2) by (simp add: example_request_fields)
  from d(4,5) example_run_CloudOnly(1,2) [OF d(3,1) a, of 1] h show ?thesis
    by simp
qed

text \<open>
  Claim C4 as the specification states it resolves the call to the cache Response in every
  case. With a network rack whose promise rejects, the mirror call rejects and so does the
  call, with the rack's error, although the cache Response was a success.
\<close>

theorem localFirst_mirror_rejects_counterexample:
  "\<not> executing (example_request PUT ''/books'' LocalFirst)
   \<and> dataPolicy (example_request PUT ''/books'' LocalFirst) = LocalFirst
   \<and> http_method (example_request PUT ''/books'' LocalFirst) \<noteq> GET
   \<and> cacheRack network_rejecting_env
        ((example_request PUT ''/books'' LocalFirst)\<lparr>executing := True\<rparr>) 0
       = (Inr (Some \<lparr>data = JObj [(''status'', JStr ''stored''), (''echo'', JStr ''original'')],
                     isSuccess = True\<rparr>), 1)
   \<and> outcome (execute network_rejecting_env (example_request PUT ''/books'' LocalFirst) 0)
       = Inl (Rejection ''offline'')
   \<and> outcome (execute network_rejecting_env (example_request PUT ''/books'' LocalFirst) 0)
       \<noteq> Inr (Some \<lparr>data = JObj [(''status'', JStr ''stored''), (''echo'', JStr ''original'')],
                       isSuccess = True\<rparr>)"
  by (simp add: example_run_mirror_network_rejects example_request_fields)

text \<open>
  Claim C9. Assigning a value to \<^verbatim>\<open>method\<close> throws exactly when the value is not a string
  or its upper-case form is not one of OPTIONS, GET, POST, PATCH, PUT, DELETE. An accepted
  value is stored as its upper-case form, and nothing else of the request changes. The
  constructor makes the same assignment, so a refused method leaves no request to execute:
  the error comes at assignment, before any execution.
\<close>

theorem method_assignment_validated:
  "((\<exists>e. set_method v this = Inl e) \<longleftrightarrow>
      (case v of
         JStr s \<Rightarrow> toUpperCase s \<notin> set [''OPTIONS'', ''GET'', ''POST'', ''PATCH'', ''PUT'', ''DELETE'']
       | _ \<Rightarrow> True))
   \<and> (\<forall>this'. set_method v this = Inr this' \<longrightarrow>
          (\<exists>s. v = JStr s \<and> HttpMethod_value (http_method this') = toUpperCase s
               \<and> this' = this\<lparr>http_method := http_method this'\<rparr>))
   \<and> (\<forall>e. set_method v this = Inl e \<longrightarrow> v \<noteq> JUndefined \<longrightarrow>
          PrivateRequest env v p q b opts = Inl e)"
proof (intro conjI allI impI)
  have "(\<exists>e. set_method v this = Inl e) \<longleftrightarrow> (\<exists>e. method_setter v = Inl e)"
    by (auto simp: set_method_def split: sum.splits)
  then show "(\<exists>e. set_method v this = Inl e) \<longleftrightarrow>
      (case v of
         JStr s \<Rightarrow> toUpperCase s \<notin> set [''OPTIONS'', ''GET'', ''POST'', ''PATCH'', ''PUT'', ''DELETE'']
       | _ \<Rightarrow> True)"
    by (simp only: method_setter_Inl)
next
  fix this' assume "set_method v this = Inr this'"
  then obtain m where m: "method_setter v = Inr m" "this' = this\<lparr>http_method := m\<rparr>"
    by (auto simp: set_method_def split: sum.splits)
  from m(1) obtain s where "v = JStr s" "toUpperCase s = HttpMethod_value m"
    by (auto simp: method_setter_Inr)
  with m(2) show "\<exists>s. v = JStr s \<and> HttpMethod_value (http_method this') = toUpperCase s
               \<and> this' = this\<lparr>http_method := http_method this'\<rparr>"
    by simp
next
  fix e assume "set_method v this = Inl e" and "v \<noteq> JUndefined"
  then show "PrivateRequest env v p q b opts = Inl e"
    by (auto simp: set_method_def PrivateRequest_def Let_def split: sum.splits)
qed

lemma toUpperCase_examples:
  "toUpperCase ''post'' = ''POST''" "toUpperCase ''FOO'' = ''FOO''"
  by code_simp+

theorem method_assignment_validated_witness:
  "(\<exists>e. set_method (JStr ''FOO'') (example_request GET ''/books'' CloudFirst) = Inl e)
   \<and> (\<exists>e. PrivateRequest example_env (JStr ''FOO'') ''/books'' None JNull (example_options CloudFirst) = Inl e)
   \<and> set_method (JStr ''post'') (example_request GET ''/books'' CloudFirst)
       = Inr (example_request POST ''/books'' CloudFirst)
   \<and> HttpMethod_value (http_method (example_request POST ''/books'' CloudFirst)) = toUpperCase ''post''"
proof -
  let ?r = "example_request GET ''/books'' CloudFirst"
  have bad: "toUpperCase ''FOO'' \<notin> set [''OPTIONS'', ''GET'', ''POST'', ''PATCH'', ''PUT'', ''DELETE'']"
    by (simp add: toUpperCase_examples)
  note foo = method_assignment_validated
    [of "JStr ''FOO''" ?r example_env "''/books''" None JNull "example_options CloudFirst"]
  from foo bad have 1: "\<exists>e. set_method (JStr ''FOO'') ?r = Inl e"
    by simp
  with foo have 2: "\<exists>e. PrivateRequest example_env (JStr ''FOO'') ''/books'' None JNull
       (example_options CloudFirst) = Inl e"
    by blast
  have 3: "set_method (JStr ''post'') ?r = Inr (example_request POST ''/books'' CloudFirst)"
    by (simp add: set_method_def method_setter_def toUpperCase_examples HttpMethod_switch_def
        example_request_def)
  note post = method_assignment_validated
    [of "JStr ''post''" ?r example_env "''/books''" None JNull "example_options CloudFirst"]
  from post 3 have 4: "HttpMethod_value (http_method (example_request POST ''/books'' CloudFirst)) = toUpperCase ''post''"
    by simp
  from 1 2 3 4 show ?thesis by blast
qed



text \<open>
  Claim C10. When \<^verbatim>\<open>execute\<close> rejects, the \<^verbatim>\<open>response\<close> field keeps the value it had before
  the call; when it resolves, the field holds the value it resolved with.
\<close>

theorem response_saved_only_on_resolve:
  "(\<forall>e. outcome (execute env this w) = Inl e \<longrightarrow>
       response (request_after (execute env this w)) = response this)
   \<and> (\<forall>res. outcome (execute env this w) = Inr res \<longrightarrow>
       response (request_after (execute env this w)) = res)"
  by (simp add: execute_response)

theorem response_saved_only_on_resolve_witness:
  "outcome (execute (example_env\<lparr>cacheRack := \<lambda>req n. (Inl (Rejection ''disk full''), n)\<rparr>)
       (example_request GET ''/books'' LocalOnly) 0) = Inl (Rejection ''disk full'')
   \<and> response (request_after
        (execute (example_env\<lparr>cacheRack := \<lambda>req n. (Inl (Rejection ''disk full''), n)\<rparr>)
          (example_request GET ''/books'' LocalOnly) 0))
       = response (example_request GET ''/books'' LocalOnly)
   \<and> outcome (execute example_env (example_request GET ''/books'' LocalOnly) 0)
       = Inr (Some \<lparr>data = JObj [(''status'', JStr ''EntityNotFound''), (''echo'', JStr ''original'')],
                     isSuccess = False\<rparr>)
   \<and> response (request_after (execute example_env (example_request GET ''/books'' LocalOnly) 0))
       = Some \<lparr>data = JObj [(''status'', JStr ''EntityNotFound''), (''echo'', JStr ''original'')],
                isSuccess = False\<rparr>"
  using response_saved_only_on_resolve
      [of "example_env\<lparr>cacheRack := \<lambda>req n. (Inl (Rejection ''disk full''), n)\<rparr>"
        "example_request GET ''/books'' LocalOnly" 0]
    response_saved_only_on_resolve [of example_env "example_request GET ''/books'' LocalOnly" 0]
  by (simp add: example_LocalOnly_GET example_LocalOnly_rejecting)




text \<open>
  Claim C6. On the network path, when the auth strategy resolves to a credential set, the
  request handed to the network rack carries the \<^verbatim>\<open>Authorization\<close> header
  \<^verbatim>\<open><scheme> <credentials>\<close> for a set \<^verbatim>\<open>{ scheme, credentials }\<close> and
  \<^verbatim>\<open><scheme> <base64(username:password)>\<close> for a set \<^verbatim>\<open>{ scheme, username, password }\<close>.
  When it resolves to \<^verbatim>\<open>null\<close> the request goes to the rack as it is, with no header added.
  A strategy that is a function is called with the client, and the rack runs after it, on the
  world the function left; when the function rejects, the call rejects and the rack is not
  run.
\<close>

theorem authorization_header:
  "(\<forall>a c w1 t1.
       resolve_auth (auth this) (client this) w = (Inr (Credentials a), w1, t1)
       \<and> username a = None \<and> credentials a = Some c \<longrightarrow>
       (let q = setHeader ''Authorization'' (JStr (scheme a @ '' '' @ c)) this in
          executeCloud env this w =
            (fst (networkRack env q w1), q, snd (networkRack env q w1),
             t1 @ [RackExecute NetworkLayer q])
          \<and> obj_get (headers q) ''authorization'' = JStr (scheme a @ '' '' @ c)
          \<and> (headers_lowercase (headers this) \<longrightarrow>
               getHeader ''Authorization'' q = JStr (scheme a @ '' '' @ c))))
   \<and> (\<forall>a u p w1 t1.
       resolve_auth (auth this) (client this) w = (Inr (Credentials a), w1, t1)
       \<and> username a = Some u \<and> password a = Some p \<longrightarrow>
       (let q = setHeader ''Authorization'' (JStr (scheme a @ '' '' @ base64 (u @ '':'' @ p))) this in
          executeCloud env this w =
            (fst (networkRack env q w1), q, snd (networkRack env q w1),
             t1 @ [RackExecute NetworkLayer q])
          \<and> obj_get (headers q) ''authorization'' = JStr (scheme a @ '' '' @ base64 (u @ '':'' @ p))
          \<and> (headers_lowercase (headers this) \<longrightarrow>
               getHeader ''Authorization'' q = JStr (scheme a @ '' '' @ base64 (u @ '':'' @ p)))))
   \<and> (\<forall>w1 t1.
       resolve_auth (auth this) (client this) w = (Inr AuthNull, w1, t1) \<longrightarrow>
       executeCloud env this w =
         (fst (networkRack env this w1), this, snd (networkRack env this w1),
          t1 @ [RackExecute NetworkLayer this]))
   \<and> (\<forall>f. auth this = AuthFunction f \<longrightarrow>
       resolve_auth (auth this) (client this) w =
         (fst (f (client this) w), snd (f (client this) w), [AuthInvoke (client this)]))
   \<and> (\<forall>e w1 t1.
       resolve_auth (auth this) (client this) w = (Inl e, w1, t1) \<longrightarrow>
       executeCloud env this w = (Inl e, this, w1, t1))"
proof (intro conjI allI impI)
  fix a c w1 t1
  assume h: "resolve_auth (auth this) (client this) w = (Inr (Credentials a), w1, t1)
       \<and> username a = None \<and> credentials a = Some c"
  then have v: "authorization a = scheme a @ '' '' @ c"
    by (simp add: authorization_verbatim)
  from h have r: "resolve_auth (auth this) (client this) w = (Inr (Credentials a), w1, t1)"
    by blast
  show "let q = setHeader ''Authorization'' (JStr (scheme a @ '' '' @ c)) this in
          executeCloud env this w =
            (fst (networkRack env q w1), q, snd (networkRack env q w1),
             t1 @ [RackExecute NetworkLayer q])
          \<and> obj_get (headers q) ''authorization'' = JStr (scheme a @ '' '' @ c)
          \<and> (headers_lowercase (headers this) \<longrightarrow>
               getHeader ''Authorization'' q = JStr (scheme a @ '' '' @ c))"
    unfolding Let_def executeCloud_Credentials [OF r] v rack_execute_network_eq
    by (simp add: obj_get_setHeader_Authorization getHeader_setHeader_Authorization)
next
  fix a u p w1 t1
  assume h: "resolve_auth (auth this) (client this) w = (Inr (Credentials a), w1, t1)
       \<and> username a = Some u \<and> password a = Some p"
  then have v: "authorization a = scheme a @ '' '' @ base64 (u @ '':'' @ p)"
    by (simp add: authorization_basic)
  from h have r: "resolve_auth (auth this) (client this) w = (Inr (Credentials a), w1, t1)"
    by blast
  show "let q = setHeader ''Authorization'' (JStr (scheme a @ '' '' @ base64 (u @ '':'' @ p))) this in
          executeCloud env this w =
            (fst (networkRack env q w1), q, snd (networkRack env q w1),
             t1 @ [RackExecute NetworkLayer q])
          \<and> obj_get (headers q) ''authorization'' = JStr (scheme a @ '' '' @ base64 (u @ '':'' @ p))
          \<and> (headers_lowercase (headers this) \<longrightarrow>
               getHeader ''Authorization'' q = JStr (scheme a @ '' '' @ base64 (u @ '':'' @ p)))"
    unfolding Let_def executeCloud_Credentials [OF r] v rack_execute_network_eq
    by (simp add: obj_get_setHeader_Authorization getHeader_setHeader_Authorization)
next
  fix w1 t1
  assume "resolve_auth (auth this) (client this) w = (Inr AuthNull, w1, t1)"
  then show "executeCloud env this w =
         (fst (networkRack env this w1), this, snd (networkRack env this w1),
          t1 @ [RackExecute NetworkLayer this])"
    by (simp add: executeCloud_AuthNull rack_execute_network_eq)
next
  fix f
  assume "auth this = AuthFunction f"
  then show "resolve_auth (auth this) (client this) w =
         (fst (f (client this) w), snd (f (client this) w), [AuthInvoke (client this)])"
    by (simp add: resolve_auth_def split: prod.splits)
next
  fix e w1 t1
  assume "resolve_auth (auth this) (client this) w = (Inl e, w1, t1)"
  then show "executeCloud env this w = (Inl e, this, w1, t1)"
    by (rule executeCloud_rejected)
qed

theorem authorization_header_witness:
  "resolve_auth example_session_auth example_client 0
      = (Inr (Credentials \<lparr>scheme = ''Kinvey'', credentials = Some ''token123'',
                            username = None, password = None\<rparr>), 1, [AuthInvoke example_client])
   \<and> steps (executeCloud example_env
        ((example_request GET ''/books'' CloudOnly)\<lparr>auth := example_session_auth\<rparr>) 0)
      = [AuthInvoke example_client,
         RackExecute NetworkLayer
           (setHeader ''Authorization'' (JStr ''Kinvey token123'')
             ((example_request GET ''/books'' CloudOnly)\<lparr>auth := example_session_auth\<rparr>))]
   \<and> world_after (executeCloud example_env
        ((example_request GET ''/books'' CloudOnly)\<lparr>auth := example_session_auth\<rparr>) 0) = 2
   \<and> resolve_auth example_basic_auth example_client 0
      = (Inr (Credentials \<lparr>scheme = ''Basic'', credentials = None,
                            username = Some ''kid'', password = Some ''secret''\<rparr>), 0, [])
   \<and> steps (executeCloud example_env
        ((example_request GET ''/books'' CloudOnly)\<lparr>auth := example_basic_auth\<rparr>) 0)
      = [RackExecute NetworkLayer
           (setHeader ''Authorization'' (JStr ''Basic a2lkOnNlY3JldA=='')
             ((example_request GET ''/books'' CloudOnly)\<lparr>auth := example_basic_auth\<rparr>))]
   \<and> steps (executeCloud example_env (example_request GET ''/books'' CloudOnly) 0)
      = [AuthInvoke example_client, RackExecute NetworkLayer (example_request GET ''/books'' CloudOnly)]"
proof -
  let ?r = "example_request GET ''/books'' CloudOnly"
  let ?k = "\<lparr>scheme = ''Kinvey'', credentials = Some ''token123'', username = None, password = None\<rparr>"
  let ?b = "\<lparr>scheme = ''Basic'', credentials = None, username = Some ''kid'', password = Some ''secret''\<rparr>"
  have k: "resolve_auth (auth (?r\<lparr>auth := example_session_auth\<rparr>)) (client (?r\<lparr>auth := example_session_auth\<rparr>)) 0
      = (Inr (Credentials ?k), 1, [AuthInvoke example_client])"
    by (simp add: resolve_auth_def example_session_auth_def example_request_fields)
  have b: "resolve_auth (auth (?r\<lparr>auth := example_basic_auth\<rparr>)) (client (?r\<lparr>auth := example_basic_auth\<rparr>)) 0
      = (Inr (Credentials ?b), 0, [])"
    by (simp add: resolve_auth_def example_basic_auth_def example_request_fields)
  have n: "resolve_auth (auth ?r) (client ?r) 0 = (Inr AuthNull, 0, [AuthInvoke example_client])"
    by (simp add: resolve_auth_def example_request_fields)
  have nw: "snd (networkRack example_env q n) = Suc n" for q n
    by (simp add: example_env_def example_networkRack_def)
  note t1 = authorization_header [of "?r\<lparr>auth := example_session_auth\<rparr>" 0 example_env]
  note t2 = authorization_header [of "?r\<lparr>auth := example_basic_auth\<rparr>" 0 example_env]
  note t3 = authorization_header [of ?r 0 example_env]
  from t1 k have 1: "executeCloud example_env (?r\<lparr>auth := example_session_auth\<rparr>) 0 =
      (let q = setHeader ''Authorization'' (JStr ''Kinvey token123'') (?r\<lparr>auth := example_session_auth\<rparr>)
       in (fst (networkRack example_env q 1), q, snd (networkRack example_env q 1),
           [AuthInvoke example_client, RackExecute NetworkLayer q]))"
    by (simp add: Let_def)
  from t2 b have 2: "executeCloud example_env (?r\<lparr>auth := example_basic_auth\<rparr>) 0 =
      (let q = setHeader ''Authorization'' (JStr ''Basic a2lkOnNlY3JldA=='') (?r\<lparr>auth := example_basic_auth\<rparr>)
       in (fst (networkRack example_env q 0), q, snd (networkRack example_env q 0),
           [RackExecute NetworkLayer q]))"
    by (simp add: Let_def base64_example)
  from t3 n have 3: "executeCloud example_env ?r 0 =
      (fst (networkRack example_env ?r 0), ?r, snd (networkRack example_env ?r 0),
       [AuthInvoke example_client, RackExecute NetworkLayer ?r])"
    by simp
  show ?thesis
    using k b unfolding 1 2 3 Let_def
    by (simp add: nw example_request_fields)
qed

text \<open>
  Claim C7, as amended. The \<^verbatim>\<open>url\<close> of a descriptor is a function of its protocol, host,
  path, flags and serialized query alone: \<^verbatim>\<open>url.format\<close> of these and of the mapping that
  \<^verbatim>\<open>merge\<close> makes from an empty object, the flags and then the serialized query. In that
  mapping, on every key of the query, the value is the flags' value merged with the query's:
  a query value that is \<^verbatim>\<open>null\<close>, a boolean, a number or a string overrides the flag's
  value; a key the query lacks, or holds as \<^verbatim>\<open>undefined\<close>, keeps the flags' value.
\<close>

theorem url_merges_flags_and_query:
  "(\<forall>that. protocol that = protocol this \<and> host that = host this \<and> path that = path this
        \<and> flags that = flags this \<and> result_toJSON (query that) = result_toJSON (query this)
        \<longrightarrow> url env that = url env this)
   \<and> url env this =
       url_format env
         \<lparr>url_protocol = protocol this, url_host = host this, url_pathname = path this,
          url_query = merge [] [flags this, Some (result_toJSON (query this))],
          url_hash = JUndefined\<rparr>
   \<and> (distinct (Object_keys (result_toJSON (query this))) \<longrightarrow>
        (\<forall>k v. map_of (result_toJSON (query this)) k = Some v \<longrightarrow>
           map_of (merge [] [flags this, Some (result_toJSON (query this))]) k
             = mergeProp (map_of (merge [] [flags this]) k) v)
      \<and> (\<forall>k v. map_of (result_toJSON (query this)) k = Some v \<and> isPrimitive v \<longrightarrow>
           map_of (merge [] [flags this, Some (result_toJSON (query this))]) k = Some v)
      \<and> (\<forall>k. map_of (result_toJSON (query this)) k = None
              \<or> map_of (result_toJSON (query this)) k = Some JUndefined \<longrightarrow>
           map_of (merge [] [flags this, Some (result_toJSON (query this))]) k
             = map_of (merge [] [flags this]) k))"
proof (intro conjI allI impI)
  fix that :: "'a request"
  assume "protocol that = protocol this \<and> host that = host this \<and> path that = path this
        \<and> flags that = flags this \<and> result_toJSON (query that) = result_toJSON (query this)"
  then show "url env that = url env this"
    by (simp add: url_def url_query_of_def)
next
  show "url env this =
       url_format env
         \<lparr>url_protocol = protocol this, url_host = host this, url_pathname = path this,
          url_query = merge [] [flags this, Some (result_toJSON (query this))],
          url_hash = JUndefined\<rparr>"
    by (simp add: url_def url_query_of_def)
next
  fix k v
  assume d: "distinct (Object_keys (result_toJSON (query this)))"
    and m: "map_of (result_toJSON (query this)) k = Some v"
  from d have d': "distinct (map fst (result_toJSON (query this)))"
    by (simp add: Object_keys_def)
  show "map_of (merge [] [flags this, Some (result_toJSON (query this))]) k
             = mergeProp (map_of (merge [] [flags this]) k) v"
    unfolding url_query_of_unfold [unfolded url_query_of_def] map_of_baseMerge_props [OF d'] m
    by simp
next
  fix k v
  assume d: "distinct (Object_keys (result_toJSON (query this)))"
    and "map_of (result_toJSON (query this)) k = Some v \<and> isPrimitive v"
  then have m: "map_of (result_toJSON (query this)) k = Some v" and p: "isPrimitive v"
    by blast+
  from d have d': "distinct (map fst (result_toJSON (query this)))"
    by (simp add: Object_keys_def)
  show "map_of (merge [] [flags this, Some (result_toJSON (query this))]) k = Some v"
    unfolding url_query_of_unfold [unfolded url_query_of_def] map_of_baseMerge_props [OF d'] m
    by (simp add: mergeProp_primitive [OF p])
next
  fix k
  assume d: "distinct (Object_keys (result_toJSON (query this)))"
    and "map_of (result_toJSON (query this)) k = None
              \<or> map_of (result_toJSON (query this)) k = Some JUndefined"
  then have m: "map_of (result_toJSON (query this)) k = None
              \<or> map_of (result_toJSON (query this)) k = Some JUndefined"
    by blast
  from d have d': "distinct (map fst (result_toJSON (query this)))"
    by (simp add: Object_keys_def)
  from m show "map_of (merge [] [flags this, Some (result_toJSON (query this))]) k
             = map_of (merge [] [flags this]) k"
    unfolding url_query_of_unfold [unfolded url_query_of_def] map_of_baseMerge_props [OF d']
    by (elim disjE) simp_all
qed

theorem url_merges_flags_and_query_witness:
  "distinct (Object_keys (toJSON example_query))
   \<and> map_of (toJSON example_query) ''skip'' = Some (JNum 0) \<and> isPrimitive (JNum 0)
   \<and> map_of (merge [] [Some example_flags, Some (toJSON example_query)]) ''skip'' = Some (JNum 0)
   \<and> map_of (toJSON example_query) ''limit'' = Some JUndefined
   \<and> map_of (merge [] [Some example_flags, Some (toJSON example_query)]) ''limit'' = Some (JNum 10)"
  using url_merges_flags_and_query
    [of "(example_request GET ''/books'' CloudFirst)
           \<lparr>flags := Some example_flags, query := Some example_query\<rparr>" example_env]
  by (simp add: example_merged result_toJSON_def) (simp add: example_query_def Object_keys_def)

text \<open>
  Claim C7 as the specification states it lets the query's value override the flag's on every
  key present in both. Where both values are plain objects \<^verbatim>\<open>merge\<close> combines them: with
  the flags \<^verbatim>\<open>{ sort: { name: 1 } }\<close> and the query \<^verbatim>\<open>{ sort: { age: 1 } }\<close> the mapping
  holds \<^verbatim>\<open>{ sort: { name: 1, age: 1 } }\<close>, which is not the query's value.
\<close>

theorem query_value_overrides_flag_counterexample:
  "map_of example_flags ''sort'' = Some (JObj [(''name'', JNum 1)])
   \<and> map_of (toJSON example_query) ''sort'' = Some (JObj [(''age'', JNum 1)])
   \<and> map_of (url_query_of ((example_request GET ''/books'' CloudFirst)
           \<lparr>flags := Some example_flags, query := Some example_query\<rparr>)) ''sort''
       = Some (JObj [(''name'', JNum 1), (''age'', JNum 1)])
   \<and> map_of (url_query_of ((example_request GET ''/books'' CloudFirst)
           \<lparr>flags := Some example_flags, query := Some example_query\<rparr>)) ''sort''
       \<noteq> map_of (toJSON example_query) ''sort''"
  by (simp add: url_query_of_def result_toJSON_def example_merged)
    (simp add: example_flags_def example_query_def)

end
